theory Spec2Isabelle
  imports Complex_Main
begin

section \<open>Numeric data\<close>

text \<open>
  The program works on float64 numbers (numpy arrays, Open3D vectors).  They are
  idealised as \<^typ>\<open>real\<close>: rounding is not modelled.  A rigid transform is a
  4 by 4 array, kept as four rows of four entries.
\<close>

type_synonym vec3 = "real \<times> real \<times> real"
type_synonym vec4 = "real \<times> real \<times> real \<times> real"
type_synonym mat3 = "vec3 \<times> vec3 \<times> vec3"
type_synonym mat4 = "vec4 \<times> vec4 \<times> vec4 \<times> vec4"

definition dot3 :: "vec3 \<Rightarrow> vec3 \<Rightarrow> real" where
  "dot3 a b = (case a of (a0, a1, a2) \<Rightarrow> case b of (b0, b1, b2) \<Rightarrow>
     a0 * b0 + a1 * b1 + a2 * b2)"

definition sub3 :: "vec3 \<Rightarrow> vec3 \<Rightarrow> vec3" where
  "sub3 a b = (case a of (a0, a1, a2) \<Rightarrow> case b of (b0, b1, b2) \<Rightarrow>
     (a0 - b0, a1 - b1, a2 - b2))"

definition dot4 :: "vec4 \<Rightarrow> vec4 \<Rightarrow> real" where
  "dot4 a b = (case a of (a0, a1, a2, a3) \<Rightarrow> case b of (b0, b1, b2, b3) \<Rightarrow>
     a0 * b0 + a1 * b1 + a2 * b2 + a3 * b3)"

definition transpose3 :: "mat3 \<Rightarrow> mat3" where
  "transpose3 A = (case A of ((a00, a01, a02), (a10, a11, a12), (a20, a21, a22)) \<Rightarrow>
     ((a00, a10, a20), (a01, a11, a21), (a02, a12, a22)))"

definition mat_vec3 :: "mat3 \<Rightarrow> vec3 \<Rightarrow> vec3" where
  "mat_vec3 A v = (case A of (r0, r1, r2) \<Rightarrow> (dot3 r0 v, dot3 r1 v, dot3 r2 v))"

definition mat_vec4 :: "mat4 \<Rightarrow> vec4 \<Rightarrow> vec4" where
  "mat_vec4 A v = (case A of (r0, r1, r2, r3) \<Rightarrow>
     (dot4 r0 v, dot4 r1 v, dot4 r2 v, dot4 r3 v))"

definition transpose4 :: "mat4 \<Rightarrow> mat4" where
  "transpose4 A = (case A of
     ((a00, a01, a02, a03), (a10, a11, a12, a13),
      (a20, a21, a22, a23), (a30, a31, a32, a33)) \<Rightarrow>
     ((a00, a10, a20, a30), (a01, a11, a21, a31),
      (a02, a12, a22, a32), (a03, a13, a23, a33)))"

definition identity3 :: mat3 where
  "identity3 = ((1, 0, 0), (0, 1, 0), (0, 0, 1))"

definition identity4 :: mat4 where
  "identity4 = ((1, 0, 0, 0), (0, 1, 0, 0), (0, 0, 1, 0), (0, 0, 0, 1))"

text \<open>The product of two 4 by 4 arrays: row \<open>i\<close> of the product holds the dot
  products of row \<open>i\<close> of \<open>A\<close> with the columns of \<open>B\<close>.\<close>

definition mat_mul :: "mat4 \<Rightarrow> mat4 \<Rightarrow> mat4" where
  "mat_mul A B = (case A of (a0, a1, a2, a3) \<Rightarrow>
     (mat_vec4 (transpose4 B) a0, mat_vec4 (transpose4 B) a1,
      mat_vec4 (transpose4 B) a2, mat_vec4 (transpose4 B) a3))"

text \<open>The slices \<^verbatim>\<open>M[:-1, :-1]\<close> (rotation block) and \<^verbatim>\<open>M[:-1, -1]\<close>
  (translation).\<close>

definition rotation_block :: "mat4 \<Rightarrow> mat3" where
  "rotation_block A = (case A of
     ((a00, a01, a02, a03), (a10, a11, a12, a13),
      (a20, a21, a22, a23), (a30, a31, a32, a33)) \<Rightarrow>
     ((a00, a01, a02), (a10, a11, a12), (a20, a21, a22)))"

definition translation_column :: "mat4 \<Rightarrow> vec3" where
  "translation_column A = (case A of
     ((a00, a01, a02, a03), (a10, a11, a12, a13),
      (a20, a21, a22, a23), (a30, a31, a32, a33)) \<Rightarrow> (a03, a13, a23))"

definition bottom_row :: "mat4 \<Rightarrow> vec4" where
  "bottom_row A = (case A of (r0, r1, r2, r3) \<Rightarrow> r3)"

text \<open>
  Exceptions of the libraries: Open3D raises \<^verbatim>\<open>RuntimeError\<close>, numpy raises
  \<^verbatim>\<open>LinAlgError\<close>.
\<close>

datatype lib_error = RuntimeError | LinAlgError

text \<open>
  Matrix inversion fails on a singular array and returns the inverse otherwise.
  Over the reals the inverse is the adjugate divided by the determinant; both
  are written through the 2 by 2 minors of the upper and of the lower pair of
  rows.
\<close>

definition det4 :: "mat4 \<Rightarrow> real" where
  "det4 A = (case A of
     ((a00, a01, a02, a03), (a10, a11, a12, a13),
      (a20, a21, a22, a23), (a30, a31, a32, a33)) \<Rightarrow>
     (a00 * a11 - a10 * a01) * (a22 * a33 - a32 * a23)
   - (a00 * a12 - a10 * a02) * (a21 * a33 - a31 * a23)
   + (a00 * a13 - a10 * a03) * (a21 * a32 - a31 * a22)
   + (a01 * a12 - a11 * a02) * (a20 * a33 - a30 * a23)
   - (a01 * a13 - a11 * a03) * (a20 * a32 - a30 * a22)
   + (a02 * a13 - a12 * a03) * (a20 * a31 - a30 * a21))"

definition adjugate4 :: "mat4 \<Rightarrow> mat4" where
  "adjugate4 A = (case A of
     ((a00, a01, a02, a03), (a10, a11, a12, a13),
      (a20, a21, a22, a23), (a30, a31, a32, a33)) \<Rightarrow>
     ((a11 * (a22 * a33 - a32 * a23) - a12 * (a21 * a33 - a31 * a23) + a13 * (a21 * a32 - a31 * a22),
       - a01 * (a22 * a33 - a32 * a23) + a02 * (a21 * a33 - a31 * a23) - a03 * (a21 * a32 - a31 * a22),
       a31 * (a02 * a13 - a12 * a03) - a32 * (a01 * a13 - a11 * a03) + a33 * (a01 * a12 - a11 * a02),
       - a21 * (a02 * a13 - a12 * a03) + a22 * (a01 * a13 - a11 * a03) - a23 * (a01 * a12 - a11 * a02)),
      (- a10 * (a22 * a33 - a32 * a23) + a12 * (a20 * a33 - a30 * a23) - a13 * (a20 * a32 - a30 * a22),
       a00 * (a22 * a33 - a32 * a23) - a02 * (a20 * a33 - a30 * a23) + a03 * (a20 * a32 - a30 * a22),
       - a30 * (a02 * a13 - a12 * a03) + a32 * (a00 * a13 - a10 * a03) - a33 * (a00 * a12 - a10 * a02),
       a20 * (a02 * a13 - a12 * a03) - a22 * (a00 * a13 - a10 * a03) + a23 * (a00 * a12 - a10 * a02)),
      (a10 * (a21 * a33 - a31 * a23) - a11 * (a20 * a33 - a30 * a23) + a13 * (a20 * a31 - a30 * a21),
       - a00 * (a21 * a33 - a31 * a23) + a01 * (a20 * a33 - a30 * a23) - a03 * (a20 * a31 - a30 * a21),
       a30 * (a01 * a13 - a11 * a03) - a31 * (a00 * a13 - a10 * a03) + a33 * (a00 * a11 - a10 * a01),
       - a20 * (a01 * a13 - a11 * a03) + a21 * (a00 * a13 - a10 * a03) - a23 * (a00 * a11 - a10 * a01)),
      (- a10 * (a21 * a32 - a31 * a22) + a11 * (a20 * a32 - a30 * a22) - a12 * (a20 * a31 - a30 * a21),
       a00 * (a21 * a32 - a31 * a22) - a01 * (a20 * a32 - a30 * a22) + a02 * (a20 * a31 - a30 * a21),
       - a30 * (a01 * a12 - a11 * a02) + a31 * (a00 * a12 - a10 * a02) - a32 * (a00 * a11 - a10 * a01),
       a20 * (a01 * a12 - a11 * a02) - a21 * (a00 * a12 - a10 * a02) + a22 * (a00 * a11 - a10 * a01))))"

definition scale4 :: "real \<Rightarrow> vec4 \<Rightarrow> vec4" where
  "scale4 k a = (case a of (a0, a1, a2, a3) \<Rightarrow> (k * a0, k * a1, k * a2, k * a3))"

definition scale_mat4 :: "real \<Rightarrow> mat4 \<Rightarrow> mat4" where
  "scale_mat4 k A = (case A of (r0, r1, r2, r3) \<Rightarrow>
     (scale4 k r0, scale4 k r1, scale4 k r2, scale4 k r3))"

definition mat_inv :: "mat4 \<Rightarrow> lib_error + mat4" where
  "mat_inv A =
     (if det4 A = 0 then Inl LinAlgError
      else Inr (scale_mat4 (1 / det4 A) (adjugate4 A)))"

section \<open>Geometry, registration and message values\<close>

text \<open>
  An Open3D point cloud holds three vectors: the points and, when present, one
  normal and one colour per point.
\<close>

record point_cloud =
  points :: "vec3 list"
  normals :: "vec3 list"
  colors :: "vec3 list"

text \<open>A feature set holds one descriptor (a list of numbers) per point.\<close>

type_synonym feature = "real list list"

record triangle_mesh =
  vertices :: "vec3 list"
  vertex_normals :: "vec3 list"
  triangles :: "(nat \<times> nat \<times> nat) list"

record oriented_bounding_box =
  obb_center :: vec3
  obb_R :: mat3
  obb_extent :: vec3
  obb_color :: vec3

record registration_result =
  transformation :: mat4
  fitness :: real
  inlier_rmse :: real
  correspondence_set :: "(nat \<times> nat) list"

text \<open>A quaternion as the float array \<^verbatim>\<open>[w, x, y, z]\<close>.\<close>

type_synonym quaternion = "real \<times> real \<times> real \<times> real"

text \<open>
  \<^verbatim>\<open>geometry_msgs/PoseStamped\<close>: a header (sequence number, time stamp, frame
  identifier) and a pose (position and orientation).
\<close>

record pose_stamped =
  header_seq :: nat
  header_stamp :: "nat \<times> nat"
  header_frame_id :: string
  position_x :: real
  position_y :: real
  position_z :: real
  orientation_x :: real
  orientation_y :: real
  orientation_z :: real
  orientation_w :: real

text \<open>\<^verbatim>\<open>PoseStamped()\<close>: every numeric field is zero and the frame identifier is
  the empty string.\<close>

definition new_PoseStamped :: pose_stamped where
  "new_PoseStamped =
     \<lparr>header_seq = 0, header_stamp = (0, 0), header_frame_id = [],
      position_x = 0, position_y = 0, position_z = 0,
      orientation_x = 0, orientation_y = 0, orientation_z = 0, orientation_w = 0\<rparr>"

subsection \<open>Geometry operations with a closed form\<close>

text \<open>
  \<^verbatim>\<open>transform\<close> multiplies every point, as the homogeneous vector
  \<open>(x, y, z, 1)\<close>, by the 4 by 4 array and divides by the fourth coordinate;
  normals are multiplied as \<open>(x, y, z, 0)\<close>.
\<close>

definition transform_point :: "mat4 \<Rightarrow> vec3 \<Rightarrow> vec3" where
  "transform_point T p = (case p of (x, y, z) \<Rightarrow>
     case mat_vec4 T (x, y, z, 1) of (x', y', z', w') \<Rightarrow> (x' / w', y' / w', z' / w'))"

definition transform_normal :: "mat4 \<Rightarrow> vec3 \<Rightarrow> vec3" where
  "transform_normal T p = (case p of (x, y, z) \<Rightarrow>
     case mat_vec4 T (x, y, z, 0) of (x', y', z', w') \<Rightarrow> (x', y', z'))"

definition transform_cloud :: "mat4 \<Rightarrow> point_cloud \<Rightarrow> point_cloud" where
  "transform_cloud T c =
     c\<lparr>points := map (transform_point T) (points c),
       normals := map (transform_normal T) (normals c)\<rparr>"

definition transform_mesh :: "mat4 \<Rightarrow> triangle_mesh \<Rightarrow> triangle_mesh" where
  "transform_mesh T m =
     m\<lparr>vertices := map (transform_point T) (vertices m),
       vertex_normals := map (transform_normal T) (vertex_normals m)\<rparr>"

definition paint_cloud :: "vec3 \<Rightarrow> point_cloud \<Rightarrow> point_cloud" where
  "paint_cloud rgb c = c\<lparr>colors := replicate (length (points c)) rgb\<rparr>"

text \<open>
  The coordinates of a point along the three axes of an oriented box (the
  columns of its rotation), measured from the centre.  A point is within the box
  when each coordinate is at most half the extent in absolute value (the
  boundary counts as within), strictly inside when each is less, and strictly
  outside when it is not within.
\<close>

definition box_coordinates :: "oriented_bounding_box \<Rightarrow> vec3 \<Rightarrow> vec3" where
  "box_coordinates b p = mat_vec3 (transpose3 (obb_R b)) (sub3 p (obb_center b))"

definition within_box :: "oriented_bounding_box \<Rightarrow> vec3 \<Rightarrow> bool" where
  "within_box b p = (case box_coordinates b p of (u, v, w) \<Rightarrow>
     case obb_extent b of (ex, ey, ez) \<Rightarrow>
       \<bar>u\<bar> \<le> ex / 2 \<and> \<bar>v\<bar> \<le> ey / 2 \<and> \<bar>w\<bar> \<le> ez / 2)"

definition strictly_inside :: "oriented_bounding_box \<Rightarrow> vec3 \<Rightarrow> bool" where
  "strictly_inside b p = (case box_coordinates b p of (u, v, w) \<Rightarrow>
     case obb_extent b of (ex, ey, ez) \<Rightarrow>
       \<bar>u\<bar> < ex / 2 \<and> \<bar>v\<bar> < ey / 2 \<and> \<bar>w\<bar> < ez / 2)"

definition strictly_outside :: "oriented_bounding_box \<Rightarrow> vec3 \<Rightarrow> bool" where
  "strictly_outside b p = (\<not> within_box b p)"

definition select_by_mask :: "bool list \<Rightarrow> 'a list \<Rightarrow> 'a list" where
  "select_by_mask keep xs = map snd (filter fst (zip keep xs))"

text \<open>\<^verbatim>\<open>crop\<close> keeps the points within the box, with their normals and colours
  when the cloud has one per point.\<close>

definition crop_cloud :: "oriented_bounding_box \<Rightarrow> point_cloud \<Rightarrow> point_cloud" where
  "crop_cloud b c =
     \<lparr>points = select_by_mask (map (within_box b) (points c)) (points c),
      normals = (if length (normals c) = length (points c)
                 then select_by_mask (map (within_box b) (points c)) (normals c) else []),
      colors = (if length (colors c) = length (points c)
                then select_by_mask (map (within_box b) (points c)) (colors c) else [])\<rparr>"

subsection \<open>The numerical algorithms of the libraries\<close>

text \<open>
  Voxel down-sampling, normal estimation, FPFH descriptors, the two
  registrations, the fitted bounding box, the coordinate-frame mesh and the
  conversion of a rotation matrix to a quaternion are computed inside Open3D and
  numpy-quaternion.  The program only calls them, so they are parameters of the
  model: each either raises a library exception or returns a value.  Search
  parameters are the pair (radius, max_nn) of \<^verbatim>\<open>KDTreeSearchParamHybrid\<close>.
\<close>

record backend =
  o3d_voxel_down_sample :: "real \<Rightarrow> point_cloud \<Rightarrow> lib_error + point_cloud"
  o3d_estimate_normals :: "real \<times> nat \<Rightarrow> point_cloud \<Rightarrow> lib_error + point_cloud"
  o3d_compute_fpfh_feature :: "real \<times> nat \<Rightarrow> point_cloud \<Rightarrow> lib_error + feature"
  o3d_registration_fast ::
    "real \<Rightarrow> point_cloud \<Rightarrow> point_cloud \<Rightarrow> feature \<Rightarrow> feature \<Rightarrow>
     lib_error + registration_result"
  o3d_registration_icp ::
    "real \<Rightarrow> mat4 \<Rightarrow> point_cloud \<Rightarrow> point_cloud \<Rightarrow> lib_error + registration_result"
  o3d_create_from_points :: "vec3 list \<Rightarrow> lib_error + oriented_bounding_box"
  o3d_create_coordinate_frame :: "real \<Rightarrow> triangle_mesh"
  quat_from_rotation_matrix :: "mat3 \<Rightarrow> lib_error + quaternion"

section \<open>Objects, the store and the program monad\<close>

text \<open>
  Python names refer to objects, and several methods change their receiver in
  place.  Objects live in a store indexed by addresses; a new object takes the
  next free address.  Standard output and the windows shown by the visualiser
  are part of the state as well.
\<close>

type_synonym addr = nat

datatype obj =
    PointCloud point_cloud
  | Feature feature
  | TriangleMesh triangle_mesh
  | OrientedBoundingBox oriented_bounding_box
  | NdArray mat4
  | PoseStamped pose_stamped

record world =
  heap :: "obj list"
  stdout :: "string list"
  windows :: "(string \<times> addr list) list"

text \<open>
  The errors named by the specification, the exceptions of the libraries, and
  \<open>TypeError\<close> for an operation applied to a name that holds no object of the
  class it needs.
\<close>

datatype error =
    InsufficientPoints
  | DegenerateNeighborhood
  | InsufficientCorrespondences
  | RegistrationDiverged
  | InvalidTransform
  | LibraryError lib_error
  | TypeError

type_synonym 'a prog = "world \<Rightarrow> (error + 'a) \<times> world"

definition ret :: "'a \<Rightarrow> 'a prog" where
  "ret v s = (Inr v, s)"

definition raise :: "error \<Rightarrow> 'a prog" where
  "raise e s = (Inl e, s)"

definition bindp :: "'a prog \<Rightarrow> ('a \<Rightarrow> 'b prog) \<Rightarrow> 'b prog" where
  "bindp m f s = (case m s of (Inl e, s') \<Rightarrow> (Inl e, s') | (Inr v, s') \<Rightarrow> f v s')"

definition lift_lib :: "lib_error + 'a \<Rightarrow> 'a prog" where
  "lift_lib r = (case r of Inl e \<Rightarrow> raise (LibraryError e) | Inr v \<Rightarrow> ret v)"

definition alloc :: "obj \<Rightarrow> addr prog" where
  "alloc x s = (Inr (length (heap s)), s\<lparr>heap := heap s @ [x]\<rparr>)"

definition deref :: "addr \<Rightarrow> obj prog" where
  "deref a s = (if a < length (heap s) then (Inr (heap s ! a), s) else (Inl TypeError, s))"

definition store :: "addr \<Rightarrow> obj \<Rightarrow> unit prog" where
  "store a x s = (Inr (), s\<lparr>heap := (heap s)[a := x]\<rparr>)"

definition get_cloud :: "addr \<Rightarrow> point_cloud prog" where
  "get_cloud a = bindp (deref a) (\<lambda>x. case x of PointCloud c \<Rightarrow> ret c | _ \<Rightarrow> raise TypeError)"

definition get_feature :: "addr \<Rightarrow> feature prog" where
  "get_feature a = bindp (deref a) (\<lambda>x. case x of Feature f \<Rightarrow> ret f | _ \<Rightarrow> raise TypeError)"

definition get_box :: "addr \<Rightarrow> oriented_bounding_box prog" where
  "get_box a =
     bindp (deref a) (\<lambda>x. case x of OrientedBoundingBox b \<Rightarrow> ret b | _ \<Rightarrow> raise TypeError)"

definition get_array :: "addr \<Rightarrow> mat4 prog" where
  "get_array a = bindp (deref a) (\<lambda>x. case x of NdArray m \<Rightarrow> ret m | _ \<Rightarrow> raise TypeError)"

definition get_msg :: "addr \<Rightarrow> pose_stamped prog" where
  "get_msg a = bindp (deref a) (\<lambda>x. case x of PoseStamped m \<Rightarrow> ret m | _ \<Rightarrow> raise TypeError)"

definition print :: "string \<Rightarrow> unit prog" where
  "print line s = (Inr (), s\<lparr>stdout := stdout s @ [line]\<rparr>)"

subsection \<open>Library calls on objects\<close>

text \<open>\<^verbatim>\<open>copy.deepcopy\<close> and \<^verbatim>\<open>ndarray.copy\<close>: a new object with the same value.\<close>

definition dcp :: "addr \<Rightarrow> addr prog" where
  "dcp a = bindp (deref a) alloc"

definition np_copy :: "addr \<Rightarrow> addr prog" where
  "np_copy a = bindp (get_array a) (\<lambda>m. alloc (NdArray m))"

text \<open>\<^verbatim>\<open>np.matmul\<close> and \<^verbatim>\<open>np.linalg.inv\<close> return new arrays.\<close>

definition np_matmul :: "addr \<Rightarrow> addr \<Rightarrow> addr prog" where
  "np_matmul a b =
     bindp (get_array a) (\<lambda>A.
     bindp (get_array b) (\<lambda>B.
     alloc (NdArray (mat_mul A B))))"

definition np_linalg_inv :: "addr \<Rightarrow> addr prog" where
  "np_linalg_inv a =
     bindp (get_array a) (\<lambda>A.
     bindp (lift_lib (mat_inv A)) (\<lambda>B.
     alloc (NdArray B)))"

text \<open>
  \<^verbatim>\<open>paint_uniform_color\<close>, \<^verbatim>\<open>transform\<close> and \<^verbatim>\<open>estimate_normals\<close> change their
  receiver in place.  \<^verbatim>\<open>crop\<close> and \<^verbatim>\<open>voxel_down_sample\<close> leave the receiver as
  it is and return a new cloud; \<^verbatim>\<open>compute_fpfh_feature\<close> returns a new feature
  set.
\<close>

definition paint_uniform_color :: "addr \<Rightarrow> vec3 \<Rightarrow> unit prog" where
  "paint_uniform_color pcd rgb =
     bindp (get_cloud pcd) (\<lambda>c. store pcd (PointCloud (paint_cloud rgb c)))"

definition transform :: "addr \<Rightarrow> addr \<Rightarrow> unit prog" where
  "transform geom t =
     bindp (get_array t) (\<lambda>T.
     bindp (deref geom) (\<lambda>x. case x of
         PointCloud c \<Rightarrow> store geom (PointCloud (transform_cloud T c))
       | TriangleMesh m \<Rightarrow> store geom (TriangleMesh (transform_mesh T m))
       | _ \<Rightarrow> raise TypeError))"

definition crop :: "addr \<Rightarrow> addr \<Rightarrow> addr prog" where
  "crop pcd bounding_box =
     bindp (get_cloud pcd) (\<lambda>c.
     bindp (get_box bounding_box) (\<lambda>b.
     alloc (PointCloud (crop_cloud b c))))"

definition voxel_down_sample :: "backend \<Rightarrow> addr \<Rightarrow> real \<Rightarrow> addr prog" where
  "voxel_down_sample L pcd voxel_size =
     bindp (get_cloud pcd) (\<lambda>c.
     bindp (lift_lib (o3d_voxel_down_sample L voxel_size c)) (\<lambda>d.
     alloc (PointCloud d)))"

definition estimate_normals :: "backend \<Rightarrow> addr \<Rightarrow> real \<times> nat \<Rightarrow> unit prog" where
  "estimate_normals L pcd search_param =
     bindp (get_cloud pcd) (\<lambda>c.
     bindp (lift_lib (o3d_estimate_normals L search_param c)) (\<lambda>d.
     store pcd (PointCloud d)))"

definition compute_fpfh_feature :: "backend \<Rightarrow> addr \<Rightarrow> real \<times> nat \<Rightarrow> addr prog" where
  "compute_fpfh_feature L input search_param =
     bindp (get_cloud input) (\<lambda>c.
     bindp (lift_lib (o3d_compute_fpfh_feature L search_param c)) (\<lambda>f.
     alloc (Feature f)))"

definition registration_fast_based_on_feature_matching ::
    "backend \<Rightarrow> addr \<Rightarrow> addr \<Rightarrow> addr \<Rightarrow> addr \<Rightarrow> real \<Rightarrow> registration_result prog" where
  "registration_fast_based_on_feature_matching L source target source_feature target_feature
       maximum_correspondence_distance =
     bindp (get_cloud source) (\<lambda>s.
     bindp (get_cloud target) (\<lambda>t.
     bindp (get_feature source_feature) (\<lambda>sf.
     bindp (get_feature target_feature) (\<lambda>tf.
     lift_lib (o3d_registration_fast L maximum_correspondence_distance s t sf tf)))))"

definition registration_icp ::
    "backend \<Rightarrow> addr \<Rightarrow> addr \<Rightarrow> real \<Rightarrow> addr \<Rightarrow> registration_result prog" where
  "registration_icp L source target max_correspondence_distance init =
     bindp (get_cloud source) (\<lambda>s.
     bindp (get_cloud target) (\<lambda>t.
     bindp (get_array init) (\<lambda>T.
     lift_lib (o3d_registration_icp L max_correspondence_distance T s t))))"

text \<open>Reading \<^verbatim>\<open>result.transformation\<close> gives the array of the result.\<close>

definition transformation_of :: "registration_result \<Rightarrow> addr prog" where
  "transformation_of result = alloc (NdArray (transformation result))"

definition create_from_points :: "backend \<Rightarrow> vec3 list \<Rightarrow> addr prog" where
  "create_from_points L pts =
     bindp (lift_lib (o3d_create_from_points L pts)) (\<lambda>b. alloc (OrientedBoundingBox b))"

definition set_box_color :: "addr \<Rightarrow> vec3 \<Rightarrow> unit prog" where
  "set_box_color a rgb =
     bindp (get_box a) (\<lambda>b. store a (OrientedBoundingBox (b\<lparr>obb_color := rgb\<rparr>)))"

definition create_coordinate_frame :: "backend \<Rightarrow> real \<Rightarrow> addr prog" where
  "create_coordinate_frame L sz = alloc (TriangleMesh (o3d_create_coordinate_frame L sz))"

text \<open>\<^verbatim>\<open>draw_geometries\<close> takes geometry objects and shows them in a window.\<close>

definition is_geometry :: "obj \<Rightarrow> bool" where
  "is_geometry x = (case x of PointCloud _ \<Rightarrow> True | TriangleMesh _ \<Rightarrow> True
                    | OrientedBoundingBox _ \<Rightarrow> True | _ \<Rightarrow> False)"

definition draw_geometries :: "addr list \<Rightarrow> string \<Rightarrow> unit prog" where
  "draw_geometries geoms window_name s =
     (if \<forall>a \<in> set geoms. a < length (heap s) \<and> is_geometry (heap s ! a)
      then (Inr (), s\<lparr>windows := windows s @ [(window_name, geoms)]\<rparr>)
      else (Inl TypeError, s))"

text \<open>Assignment to a field of a message.\<close>

definition set_field :: "addr \<Rightarrow> (pose_stamped \<Rightarrow> pose_stamped) \<Rightarrow> unit prog" where
  "set_field msg upd = bindp (get_msg msg) (\<lambda>m. store msg (PoseStamped (upd m)))"


section \<open>The registration module\<close>

subsection \<open>Default registration parameters (metres)\<close>

definition VOXEL_SIZE :: real where "VOXEL_SIZE = 5 / 1000"
definition RADIUS_NORMAL :: real where "RADIUS_NORMAL = 5 / 1000"
definition RADIUS_FEATURE :: real where "RADIUS_FEATURE = 3 / 100"
definition GLOBAL_DISTANCE_THRESHOLD :: real where "GLOBAL_DISTANCE_THRESHOLD = 2 / 10"
definition ICP_REFINE_DISTANCE_THRESHOLD :: real where "ICP_REFINE_DISTANCE_THRESHOLD = 2 / 1000"

subsection \<open>Functions of the module\<close>

definition preprocess_point_cloud ::
    "backend \<Rightarrow> addr \<Rightarrow> real \<Rightarrow> real \<Rightarrow> real \<Rightarrow> (addr \<times> addr) prog" where
  "preprocess_point_cloud L pcd voxel_size radius_normal radius_feature =
     bindp (voxel_down_sample L pcd voxel_size) (\<lambda>pcd_down.
     bindp (estimate_normals L pcd_down (radius_normal, 100)) (\<lambda>_.
     bindp (compute_fpfh_feature L pcd_down (radius_feature, 200)) (\<lambda>pcd_fpfh.
     ret (pcd_down, pcd_fpfh))))"

definition execute_fast_global_registration ::
    "backend \<Rightarrow> addr \<Rightarrow> addr \<Rightarrow> addr \<Rightarrow> addr \<Rightarrow> real \<Rightarrow> registration_result prog" where
  "execute_fast_global_registration L source_down target_down source_fpfh target_fpfh
       distance_threshold =
     bindp (print ''[INFO] Fast global registration with fpfh features'') (\<lambda>_.
     bindp (registration_fast_based_on_feature_matching L source_down target_down
              source_fpfh target_fpfh distance_threshold) (\<lambda>result.
     ret result))"

definition refine_registration ::
    "backend \<Rightarrow> addr \<Rightarrow> addr \<Rightarrow> addr \<Rightarrow> real \<Rightarrow> registration_result prog" where
  "refine_registration L source target previous_transformation distance_threshold =
     bindp (print ''[INFO] Point-to-plane ICP registration'') (\<lambda>_.
     bindp (registration_icp L source target distance_threshold previous_transformation)
       (\<lambda>result.
     ret result))"

subsection \<open>Module initialisation\<close>

text \<open>
  The names bound at module level.  No function of the module rebinds them, so
  they are a constant record of addresses once the module is loaded.
\<close>

record globals =
  transform_base_to_cam_hand_calibrated :: addr
  transform_cam_to_base_hand_calibrated :: addr
  transform_base_to_reference_grasp :: addr
  workspace_bounding_box :: addr
  robot_frame :: addr
  cam_frame :: addr
  target :: addr
  target_down :: addr
  target_fpfh :: addr
  init_transformation_for_global_registration :: addr
  pose_msg :: addr

text \<open>The contents of the files read at load time.\<close>

record files =
  npy_base_to_cam :: mat4
  npy_cam_to_base :: mat4
  npy_base_to_reference_grasp :: mat4
  npy_workspace_bounding_box :: "vec3 list"
  ply_reference :: point_cloud

definition init_module :: "backend \<Rightarrow> files \<Rightarrow> globals prog" where
  "init_module L F =
     bindp (alloc (NdArray (npy_base_to_cam F))) (\<lambda>base_to_cam.
     bindp (alloc (NdArray (npy_cam_to_base F))) (\<lambda>cam_to_base.
     bindp (alloc (NdArray (npy_base_to_reference_grasp F))) (\<lambda>base_to_reference_grasp.
     bindp (create_from_points L (npy_workspace_bounding_box F)) (\<lambda>bounding_box.
     bindp (set_box_color bounding_box (0, 1, 0)) (\<lambda>_.
     bindp (create_coordinate_frame L (2 / 10)) (\<lambda>robot.
     bindp (create_coordinate_frame L (2 / 10)) (\<lambda>cam.
     bindp (transform cam cam_to_base) (\<lambda>_.
     bindp (alloc (PointCloud (ply_reference F))) (\<lambda>tgt.
     bindp (transform tgt cam_to_base) (\<lambda>_.
     bindp (paint_uniform_color tgt (6 / 10, 6 / 10, 6 / 10)) (\<lambda>_.
     bindp (preprocess_point_cloud L tgt VOXEL_SIZE RADIUS_NORMAL RADIUS_FEATURE)
       (\<lambda>(tgt_down, tgt_fpfh).
     bindp (np_copy base_to_cam) (\<lambda>init_transformation.
     bindp (alloc (PoseStamped new_PoseStamped)) (\<lambda>msg.
     ret \<lparr>transform_base_to_cam_hand_calibrated = base_to_cam,
          transform_cam_to_base_hand_calibrated = cam_to_base,
          transform_base_to_reference_grasp = base_to_reference_grasp,
          workspace_bounding_box = bounding_box,
          robot_frame = robot,
          cam_frame = cam,
          target = tgt,
          target_down = tgt_down,
          target_fpfh = tgt_fpfh,
          init_transformation_for_global_registration = init_transformation,
          pose_msg = msg\<rparr>))))))))))))))"

subsection \<open>The pipeline\<close>

text \<open>
  \<^verbatim>\<open>get_target_grasp_pose\<close> in five consecutive parts.  First: copy the source
  cloud, paint it and transform it into the robot frame.
\<close>

definition source_into_robot_frame :: "globals \<Rightarrow> addr \<Rightarrow> addr prog" where
  "source_into_robot_frame G source_pcd =
     bindp (dcp source_pcd) (\<lambda>source_pcd_original.
     bindp (paint_uniform_color source_pcd_original (0, 0, 1)) (\<lambda>_.
     bindp (transform source_pcd_original (transform_cam_to_base_hand_calibrated G)) (\<lambda>_.
     ret source_pcd_original)))"

text \<open>
  Second: copy the cloud to be processed, call \<^verbatim>\<open>crop\<close> on it (the cloud that
  the call returns is bound to no name) and move the copy away from the target.
\<close>

definition source_to_process :: "globals \<Rightarrow> addr \<Rightarrow> addr prog" where
  "source_to_process G source_pcd_original =
     bindp (dcp source_pcd_original) (\<lambda>source_pcd_to_process.
     bindp (crop source_pcd_to_process (workspace_bounding_box G)) (\<lambda>_.
     bindp (transform source_pcd_to_process
              (init_transformation_for_global_registration G)) (\<lambda>_.
     ret source_pcd_to_process)))"

text \<open>Third: descriptors, global registration, refinement, and the final
  transformation, which includes the initial one.\<close>

definition register_source :: "backend \<Rightarrow> globals \<Rightarrow> addr \<Rightarrow> addr prog" where
  "register_source L G source_pcd_to_process =
     bindp (preprocess_point_cloud L source_pcd_to_process
              VOXEL_SIZE RADIUS_NORMAL RADIUS_FEATURE) (\<lambda>(source_down, source_fpfh).
     bindp (execute_fast_global_registration L source_down (target_down G)
              source_fpfh (target_fpfh G) GLOBAL_DISTANCE_THRESHOLD) (\<lambda>result_fast.
     bindp (transformation_of result_fast) (\<lambda>fast_transformation.
     bindp (refine_registration L source_down (target_down G) fast_transformation
              ICP_REFINE_DISTANCE_THRESHOLD) (\<lambda>result_refine.
     bindp (transformation_of result_refine) (\<lambda>refine_transformation.
     np_matmul refine_transformation (init_transformation_for_global_registration G))))))"

text \<open>
  Fourth: the grasp transform (the inverse of the source-to-target transform,
  times the reference grasp) and its visualisation.
\<close>

definition show_grasp_transform :: "backend \<Rightarrow> globals \<Rightarrow> addr \<Rightarrow> addr \<Rightarrow> addr prog" where
  "show_grasp_transform L G transform_source_to_target source_pcd_original =
     bindp (create_coordinate_frame L (2 / 10)) (\<lambda>new_grasp_frame.
     bindp (np_linalg_inv transform_source_to_target) (\<lambda>transform_target_to_source.
     bindp (np_matmul transform_target_to_source (transform_base_to_reference_grasp G))
       (\<lambda>transform_target_grasp.
     bindp (transform new_grasp_frame transform_target_grasp) (\<lambda>_.
     bindp (print ''[INFO] Visualizing the found grasping pose'') (\<lambda>_.
     bindp (draw_geometries [robot_frame G, new_grasp_frame, source_pcd_original, target G]
              ''Grasping pose proposal'') (\<lambda>_.
     ret transform_target_grasp))))))"

text \<open>
  Fifth: the pose message, a copy of \<^verbatim>\<open>pose_msg\<close> whose position is the
  translation of the grasp transform and whose orientation is the quaternion
  \<^verbatim>\<open>[w, x, y, z]\<close> of its rotation block.
\<close>

definition pose_of_transform :: "backend \<Rightarrow> globals \<Rightarrow> addr \<Rightarrow> addr prog" where
  "pose_of_transform L G transform_target_grasp =
     bindp (get_array transform_target_grasp) (\<lambda>grasp.
     bindp (lift_lib (quat_from_rotation_matrix L (rotation_block grasp)))
       (\<lambda>(qw, qx, qy, qz).
     case translation_column grasp of (tx, ty, tz) \<Rightarrow>
     bindp (dcp (pose_msg G)) (\<lambda>pose.
     bindp (set_field pose (position_x_update (\<lambda>_. tx))) (\<lambda>_.
     bindp (set_field pose (position_y_update (\<lambda>_. ty))) (\<lambda>_.
     bindp (set_field pose (position_z_update (\<lambda>_. tz))) (\<lambda>_.
     bindp (set_field pose (orientation_w_update (\<lambda>_. qw))) (\<lambda>_.
     bindp (set_field pose (orientation_x_update (\<lambda>_. qx))) (\<lambda>_.
     bindp (set_field pose (orientation_y_update (\<lambda>_. qy))) (\<lambda>_.
     bindp (set_field pose (orientation_z_update (\<lambda>_. qz))) (\<lambda>_.
     ret pose))))))))))"

text \<open>The pose composition is the fourth and the fifth part together.\<close>

definition compose_grasp_pose :: "backend \<Rightarrow> globals \<Rightarrow> addr \<Rightarrow> addr \<Rightarrow> addr prog" where
  "compose_grasp_pose L G transform_source_to_target source_pcd_original =
     bindp (show_grasp_transform L G transform_source_to_target source_pcd_original)
       (\<lambda>transform_target_grasp.
     pose_of_transform L G transform_target_grasp)"

definition get_target_grasp_pose :: "backend \<Rightarrow> globals \<Rightarrow> addr \<Rightarrow> addr prog" where
  "get_target_grasp_pose L G source_pcd =
     bindp (source_into_robot_frame G source_pcd) (\<lambda>source_pcd_original.
     bindp (source_to_process G source_pcd_original) (\<lambda>source_pcd_to_process.
     bindp (register_source L G source_pcd_to_process) (\<lambda>transform_source_to_target.
     compose_grasp_pose L G transform_source_to_target source_pcd_original)))"


section \<open>Predicates used in the statements\<close>

text \<open>
  A state extends a store \<open>h0\<close> when every object of \<open>h0\<close> is still there, at
  the same address and with the same value.
\<close>

definition extends :: "obj list \<Rightarrow> world \<Rightarrow> bool" where
  "extends h0 s = (take (length h0) (heap s) = h0)"

text \<open>
  \<open>fr h0 m R\<close>: started in a state that extends \<open>h0\<close>, the program \<open>m\<close> ends in
  a state that extends \<open>h0\<close>, whether it returns or raises, and a returned value
  satisfies \<open>R\<close>.
\<close>

definition fr :: "obj list \<Rightarrow> 'a prog \<Rightarrow> ('a \<Rightarrow> bool) \<Rightarrow> bool" where
  "fr h0 m R = (\<forall>s. extends h0 s \<longrightarrow>
     (case m s of (Inl e, s') \<Rightarrow> extends h0 s' | (Inr v, s') \<Rightarrow> extends h0 s' \<and> R v))"

text \<open>A transform is affine when its bottom row is \<open>(0, 0, 0, 1)\<close>.\<close>

definition affine :: "mat4 \<Rightarrow> bool" where
  "affine T = (bottom_row T = (0, 0, 0, 1))"


section \<open>A small backend and a small scene\<close>

text \<open>
  The statements below hold for every backend.  To run the model on concrete
  inputs, this backend keeps a cloud as it is when down-sampling, gives every
  point the normal \<open>(0, 0, 1)\<close> and a one-number descriptor, lets the global
  registration return the identity and the refinement its initial transform,
  fits the unit cube around the origin, and converts every rotation to the
  quaternion \<open>(1, 0, 0, 0)\<close>.
\<close>

definition sample_result :: "mat4 \<Rightarrow> registration_result" where
  "sample_result T =
     \<lparr>transformation = T, fitness = 0, inlier_rmse = 0, correspondence_set = []\<rparr>"

definition unit_box :: oriented_bounding_box where
  "unit_box =
     \<lparr>obb_center = (0, 0, 0), obb_R = identity3, obb_extent = (1, 1, 1), obb_color = (0, 0, 0)\<rparr>"

definition sample_frame :: "real \<Rightarrow> triangle_mesh" where
  "sample_frame sz =
     \<lparr>vertices = [(0, 0, 0), (sz, 0, 0), (0, sz, 0), (0, 0, sz)],
      vertex_normals = [], triangles = []\<rparr>"

definition sample_backend :: backend where
  "sample_backend =
     \<lparr>o3d_voxel_down_sample = (\<lambda>v c. if v \<le> 0 then Inl RuntimeError else Inr c),
      o3d_estimate_normals = (\<lambda>sp c. Inr (c\<lparr>normals := map (\<lambda>_. (0, 0, 1)) (points c)\<rparr>)),
      o3d_compute_fpfh_feature =
        (\<lambda>sp c. if points c = [] then Inl RuntimeError else Inr (map (\<lambda>_. [0]) (points c))),
      o3d_registration_fast = (\<lambda>thr s t sf tf. Inr (sample_result identity4)),
      o3d_registration_icp = (\<lambda>thr T s t. Inr (sample_result T)),
      o3d_create_from_points = (\<lambda>pts. if pts = [] then Inl RuntimeError else Inr unit_box),
      o3d_create_coordinate_frame = sample_frame,
      quat_from_rotation_matrix = (\<lambda>A. Inr (1, 0, 0, 0))\<rparr>"

text \<open>The camera sits one metre below the robot base along \<open>z\<close>; the reference
  grasp is a pure translation.\<close>

definition sample_cam_to_base :: mat4 where
  "sample_cam_to_base = ((1, 0, 0, 0), (0, 1, 0, 0), (0, 0, 1, 1), (0, 0, 0, 1))"

definition sample_base_to_cam :: mat4 where
  "sample_base_to_cam = ((1, 0, 0, 0), (0, 1, 0, 0), (0, 0, 1, - 1), (0, 0, 0, 1))"

definition sample_reference_grasp :: mat4 where
  "sample_reference_grasp = ((1, 0, 0, 1 / 2), (0, 1, 0, 0), (0, 0, 1, 1 / 4), (0, 0, 0, 1))"

definition sample_files :: files where
  "sample_files =
     \<lparr>npy_base_to_cam = sample_base_to_cam,
      npy_cam_to_base = sample_cam_to_base,
      npy_base_to_reference_grasp = sample_reference_grasp,
      npy_workspace_bounding_box = [(- 1 / 2, - 1 / 2, - 1 / 2), (1 / 2, 1 / 2, 1 / 2)],
      ply_reference = \<lparr>points = [(0, 0, - 1)], normals = [], colors = []\<rparr>\<rparr>"

definition empty_world :: world where
  "empty_world = \<lparr>heap = [], stdout = [], windows = []\<rparr>"

text \<open>The names and the state after loading the module on these files.\<close>

definition sample_globals :: globals where
  "sample_globals =
     \<lparr>transform_base_to_cam_hand_calibrated = 0,
      transform_cam_to_base_hand_calibrated = 1,
      transform_base_to_reference_grasp = 2,
      workspace_bounding_box = 3,
      robot_frame = 4,
      cam_frame = 5,
      target = 6,
      target_down = 7,
      target_fpfh = 8,
      init_transformation_for_global_registration = 9,
      pose_msg = 10\<rparr>"

definition sample_heap :: "obj list" where
  "sample_heap =
     [NdArray sample_base_to_cam,
      NdArray sample_cam_to_base,
      NdArray sample_reference_grasp,
      OrientedBoundingBox (unit_box\<lparr>obb_color := (0, 1, 0)\<rparr>),
      TriangleMesh (sample_frame (2 / 10)),
      TriangleMesh (transform_mesh sample_cam_to_base (sample_frame (2 / 10))),
      PointCloud \<lparr>points = [(0, 0, 0)], normals = [], colors = [(6 / 10, 6 / 10, 6 / 10)]\<rparr>,
      PointCloud \<lparr>points = [(0, 0, 0)], normals = [(0, 0, 1)],
                  colors = [(6 / 10, 6 / 10, 6 / 10)]\<rparr>,
      Feature [[0]],
      NdArray sample_base_to_cam,
      PoseStamped new_PoseStamped]"

definition sample_world :: world where
  "sample_world = \<lparr>heap = sample_heap, stdout = [], windows = []\<rparr>"

text \<open>A caller's cloud, added to a state; its address is the old size of the
  store.\<close>

definition with_object :: "obj \<Rightarrow> world \<Rightarrow> world" where
  "with_object x s = s\<lparr>heap := heap s @ [x]\<rparr>"

text \<open>A source cloud of one point, five metres out along each camera axis.\<close>

definition far_cloud :: point_cloud where
  "far_cloud = \<lparr>points = [(5, 5, 5)], normals = [], colors = []\<rparr>"

definition empty_cloud :: point_cloud where
  "empty_cloud = \<lparr>points = [], normals = [], colors = []\<rparr>"


text \<open>The objects bound to the module-level names.\<close>

definition shared_objects :: "globals \<Rightarrow> addr list" where
  "shared_objects G =
     [transform_base_to_cam_hand_calibrated G,
      transform_cam_to_base_hand_calibrated G,
      transform_base_to_reference_grasp G,
      workspace_bounding_box G,
      robot_frame G,
      cam_frame G,
      target G,
      target_down G,
      target_fpfh G,
      init_transformation_for_global_registration G,
      pose_msg G]"

text \<open>One call of the pipeline in the sample scene, on the far cloud (which the
  caller holds at address 11).\<close>

definition sample_call :: "(error + addr) \<times> world" where
  "sample_call = get_target_grasp_pose sample_backend sample_globals 11
     (with_object (PointCloud far_cloud) sample_world)"


text \<open>The far cloud once it is painted and expressed in the robot frame.\<close>

definition robot_frame_cloud :: point_cloud where
  "robot_frame_cloud = \<lparr>points = [(5, 5, 6)], normals = [], colors = [(0, 0, 1)]\<rparr>"



section \<open>Basic facts\<close>

lemmas prim_defs = bindp_def ret_def raise_def lift_lib_def alloc_def deref_def store_def
  get_cloud_def get_feature_def get_box_def get_array_def get_msg_def print_def dcp_def
  np_copy_def np_matmul_def np_linalg_inv_def paint_uniform_color_def transform_def crop_def
  voxel_down_sample_def estimate_normals_def compute_fpfh_feature_def
  registration_fast_based_on_feature_matching_def registration_icp_def transformation_of_def
  create_from_points_def set_box_color_def create_coordinate_frame_def draw_geometries_def
  set_field_def

lemmas mat_defs = dot3_def sub3_def dot4_def transpose3_def mat_vec3_def mat_vec4_def
  transpose4_def mat_mul_def rotation_block_def translation_column_def bottom_row_def
  det4_def adjugate4_def scale4_def scale_mat4_def

lemmas geom_defs = transform_point_def transform_normal_def transform_cloud_def
  transform_mesh_def paint_cloud_def box_coordinates_def within_box_def strictly_inside_def
  strictly_outside_def select_by_mask_def crop_cloud_def

lemmas sample_defs = sample_result_def unit_box_def sample_frame_def sample_backend_def
  sample_cam_to_base_def sample_base_to_cam_def sample_reference_grasp_def sample_files_def
  empty_world_def sample_globals_def sample_heap_def sample_world_def with_object_def
  far_cloud_def empty_cloud_def new_PoseStamped_def identity3_def identity4_def

lemmas const_defs = VOXEL_SIZE_def RADIUS_NORMAL_def RADIUS_FEATURE_def
  GLOBAL_DISTANCE_THRESHOLD_def ICP_REFINE_DISTANCE_THRESHOLD_def

lemma extends_length: "extends h0 s \<Longrightarrow> length h0 \<le> length (heap s)"
proof -
  assume "extends h0 s"
  then have "length (take (length h0) (heap s)) = length h0" by (simp add: extends_def)
  then show ?thesis by simp
qed

lemma extends_nth: "extends h0 s \<Longrightarrow> a < length h0 \<Longrightarrow> heap s ! a = h0 ! a"
  unfolding extends_def by (metis nth_take)

lemma extends_refl: "extends (heap s) s"
  by (simp add: extends_def)

lemma fr_ret: "R v \<Longrightarrow> fr h0 (ret v) R"
  by (simp add: fr_def ret_def)

lemma fr_raise: "fr h0 (raise e) R"
  by (simp add: fr_def raise_def)

lemma fr_bind:
  assumes "fr h0 m R'" and "\<And>v. R' v \<Longrightarrow> fr h0 (f v) R"
  shows "fr h0 (bindp m f) R"
  unfolding fr_def
proof (intro allI impI)
  fix s assume s: "extends h0 s"
  obtain r s' where ms: "m s = (r, s')" by (cases "m s")
  show "case bindp m f s of (Inl e, s') \<Rightarrow> extends h0 s' | (Inr v, s') \<Rightarrow> extends h0 s' \<and> R v"
  proof (cases r)
    case (Inl e)
    with assms(1) s ms show ?thesis by (auto simp: fr_def bindp_def)
  next
    case (Inr v)
    with assms(1) s ms have "extends h0 s'" "R' v" by (auto simp: fr_def)
    with assms(2) have "case f v s' of (Inl e, s') \<Rightarrow> extends h0 s' | (Inr v, s') \<Rightarrow> extends h0 s' \<and> R v"
      by (auto simp: fr_def)
    with ms Inr show ?thesis by (simp add: bindp_def)
  qed
qed

lemma fr_weaken:
  assumes "fr h0 m R'" and "\<And>v. R' v \<Longrightarrow> R v"
  shows "fr h0 m R"
  unfolding fr_def
proof (intro allI impI)
  fix s assume s: "extends h0 s"
  obtain r s' where ms: "m s = (r, s')" by (cases "m s")
  from assms(1) s ms show "case m s of (Inl e, s') \<Rightarrow> extends h0 s' | (Inr v, s') \<Rightarrow> extends h0 s' \<and> R v"
    by (cases r) (auto simp: fr_def assms(2))
qed

lemma fr_lift_lib: "fr h0 (lift_lib r) (\<lambda>_. True)"
  by (cases r) (simp_all add: lift_lib_def fr_raise fr_ret)

lemma fr_alloc: "fr h0 (alloc x) (\<lambda>a. length h0 \<le> a)"
  unfolding fr_def alloc_def
  by (auto simp: extends_def dest: extends_length[unfolded extends_def])

lemma fr_deref: "fr h0 (deref a) (\<lambda>_. True)"
  by (simp add: fr_def deref_def)

lemma fr_store: "length h0 \<le> a \<Longrightarrow> fr h0 (store a x) (\<lambda>_. True)"
  by (simp add: fr_def store_def extends_def)

lemma fr_print: "fr h0 (print l) (\<lambda>_. True)"
  by (simp add: fr_def print_def extends_def)

lemma fr_draw: "fr h0 (draw_geometries gs w) (\<lambda>_. True)"
  by (simp add: fr_def draw_geometries_def extends_def)

lemma fr_get_cloud: "fr h0 (get_cloud a) (\<lambda>_. True)"
  unfolding get_cloud_def
  by (rule fr_bind[OF fr_deref]) (simp add: fr_ret fr_raise split: obj.splits)

lemma fr_get_feature: "fr h0 (get_feature a) (\<lambda>_. True)"
  unfolding get_feature_def
  by (rule fr_bind[OF fr_deref]) (simp add: fr_ret fr_raise split: obj.splits)

lemma fr_get_box: "fr h0 (get_box a) (\<lambda>_. True)"
  unfolding get_box_def
  by (rule fr_bind[OF fr_deref]) (simp add: fr_ret fr_raise split: obj.splits)

lemma fr_get_array: "fr h0 (get_array a) (\<lambda>_. True)"
  unfolding get_array_def
  by (rule fr_bind[OF fr_deref]) (simp add: fr_ret fr_raise split: obj.splits)

lemma fr_get_msg: "fr h0 (get_msg a) (\<lambda>_. True)"
  unfolding get_msg_def
  by (rule fr_bind[OF fr_deref]) (simp add: fr_ret fr_raise split: obj.splits)

lemma fr_dcp: "fr h0 (dcp a) (\<lambda>b. length h0 \<le> b)"
  unfolding dcp_def by (rule fr_bind[OF fr_deref]) (rule fr_alloc)

lemma fr_np_copy: "fr h0 (np_copy a) (\<lambda>b. length h0 \<le> b)"
  unfolding np_copy_def by (rule fr_bind[OF fr_get_array]) (rule fr_alloc)

lemma fr_np_matmul: "fr h0 (np_matmul a b) (\<lambda>c. length h0 \<le> c)"
  unfolding np_matmul_def
  by (rule fr_bind[OF fr_get_array], rule fr_bind[OF fr_get_array], rule fr_alloc)

lemma fr_np_linalg_inv: "fr h0 (np_linalg_inv a) (\<lambda>c. length h0 \<le> c)"
  unfolding np_linalg_inv_def
  by (rule fr_bind[OF fr_get_array], rule fr_bind[OF fr_lift_lib], rule fr_alloc)

lemma fr_paint_uniform_color: "length h0 \<le> a \<Longrightarrow> fr h0 (paint_uniform_color a c) (\<lambda>_. True)"
  unfolding paint_uniform_color_def
  by (rule fr_bind[OF fr_get_cloud]) (rule fr_store)

lemma fr_transform: "length h0 \<le> a \<Longrightarrow> fr h0 (transform a t) (\<lambda>_. True)"
  unfolding transform_def
  by (rule fr_bind[OF fr_get_array], rule fr_bind[OF fr_deref])
     (simp add: fr_store fr_raise split: obj.splits)

lemma fr_crop: "fr h0 (crop a b) (\<lambda>c. length h0 \<le> c)"
  unfolding crop_def
  by (rule fr_bind[OF fr_get_cloud], rule fr_bind[OF fr_get_box], rule fr_alloc)

lemma fr_voxel_down_sample: "fr h0 (voxel_down_sample L a v) (\<lambda>c. length h0 \<le> c)"
  unfolding voxel_down_sample_def
  by (rule fr_bind[OF fr_get_cloud], rule fr_bind[OF fr_lift_lib], rule fr_alloc)

lemma fr_estimate_normals: "length h0 \<le> a \<Longrightarrow> fr h0 (estimate_normals L a sp) (\<lambda>_. True)"
  unfolding estimate_normals_def
  by (rule fr_bind[OF fr_get_cloud], rule fr_bind[OF fr_lift_lib], rule fr_store)

lemma fr_compute_fpfh_feature: "fr h0 (compute_fpfh_feature L a sp) (\<lambda>c. length h0 \<le> c)"
  unfolding compute_fpfh_feature_def
  by (rule fr_bind[OF fr_get_cloud], rule fr_bind[OF fr_lift_lib], rule fr_alloc)

lemma fr_registration_fast:
  "fr h0 (registration_fast_based_on_feature_matching L a b c d e) (\<lambda>_. True)"
  unfolding registration_fast_based_on_feature_matching_def
  by (rule fr_bind[OF fr_get_cloud], rule fr_bind[OF fr_get_cloud],
      rule fr_bind[OF fr_get_feature], rule fr_bind[OF fr_get_feature], rule fr_lift_lib)

lemma fr_registration_icp: "fr h0 (registration_icp L a b c d) (\<lambda>_. True)"
  unfolding registration_icp_def
  by (rule fr_bind[OF fr_get_cloud], rule fr_bind[OF fr_get_cloud],
      rule fr_bind[OF fr_get_array], rule fr_lift_lib)

lemma fr_transformation_of: "fr h0 (transformation_of r) (\<lambda>c. length h0 \<le> c)"
  unfolding transformation_of_def by (rule fr_alloc)

lemma fr_create_from_points: "fr h0 (create_from_points L p) (\<lambda>c. length h0 \<le> c)"
  unfolding create_from_points_def by (rule fr_bind[OF fr_lift_lib], rule fr_alloc)

lemma fr_create_coordinate_frame: "fr h0 (create_coordinate_frame L p) (\<lambda>c. length h0 \<le> c)"
  unfolding create_coordinate_frame_def by (rule fr_alloc)

lemma fr_set_box_color: "length h0 \<le> a \<Longrightarrow> fr h0 (set_box_color a c) (\<lambda>_. True)"
  unfolding set_box_color_def by (rule fr_bind[OF fr_get_box]) (rule fr_store)

lemma fr_set_field: "length h0 \<le> a \<Longrightarrow> fr h0 (set_field a u) (\<lambda>_. True)"
  unfolding set_field_def by (rule fr_bind[OF fr_get_msg]) (rule fr_store)

lemma fr_preprocess_point_cloud:
  "fr h0 (preprocess_point_cloud L pcd v rn rf) (\<lambda>(d, f). length h0 \<le> d \<and> length h0 \<le> f)"
  unfolding preprocess_point_cloud_def
  by (rule fr_bind[OF fr_voxel_down_sample], rule fr_bind[OF fr_estimate_normals], assumption,
      rule fr_bind[OF fr_compute_fpfh_feature], rule fr_ret, simp)

lemma fr_execute_fast_global_registration:
  "fr h0 (execute_fast_global_registration L a b c d e) (\<lambda>_. True)"
  unfolding execute_fast_global_registration_def
  by (rule fr_bind[OF fr_print], rule fr_bind[OF fr_registration_fast], rule fr_ret, simp)

lemma fr_refine_registration: "fr h0 (refine_registration L a b c d) (\<lambda>_. True)"
  unfolding refine_registration_def
  by (rule fr_bind[OF fr_print], rule fr_bind[OF fr_registration_icp], rule fr_ret, simp)

lemma fr_source_into_robot_frame:
  "fr h0 (source_into_robot_frame G src) (\<lambda>a. length h0 \<le> a)"
  unfolding source_into_robot_frame_def
  by (rule fr_bind[OF fr_dcp], rule fr_bind[OF fr_paint_uniform_color], assumption,
      rule fr_bind[OF fr_transform], assumption, rule fr_ret, assumption)

lemma fr_source_to_process:
  "fr h0 (source_to_process G src) (\<lambda>a. length h0 \<le> a)"
  unfolding source_to_process_def
  by (rule fr_bind[OF fr_dcp], rule fr_bind[OF fr_crop],
      rule fr_bind[OF fr_transform], assumption, rule fr_ret, assumption)

lemma fr_register_source:
  "fr h0 (register_source L G src) (\<lambda>a. length h0 \<le> a)"
  unfolding register_source_def
  apply (rule fr_bind[OF fr_preprocess_point_cloud])
  apply (clarsimp)
  apply (rule fr_bind[OF fr_execute_fast_global_registration])
  apply (rule fr_bind[OF fr_transformation_of])
  apply (rule fr_bind[OF fr_refine_registration])
  apply (rule fr_bind[OF fr_transformation_of])
  apply (rule fr_np_matmul)
  done

lemma fr_show_grasp_transform:
  "fr h0 (show_grasp_transform L G t src) (\<lambda>a. length h0 \<le> a)"
  unfolding show_grasp_transform_def
  apply (rule fr_bind[OF fr_create_coordinate_frame])
  apply (rule fr_bind[OF fr_np_linalg_inv])
  apply (rule fr_bind[OF fr_np_matmul])
  apply (rule fr_bind[OF fr_transform], assumption)
  apply (rule fr_bind[OF fr_print])
  apply (rule fr_bind[OF fr_draw])
  apply (rule fr_ret, assumption)
  done

lemma fr_pose_of_transform:
  "fr h0 (pose_of_transform L G t) (\<lambda>a. length h0 \<le> a)"
  unfolding pose_of_transform_def
  apply (rule fr_bind[OF fr_get_array])
  apply (rule fr_bind[OF fr_lift_lib])
  apply (clarsimp split: prod.splits)
  apply (rule fr_bind[OF fr_dcp])
  apply (rule fr_bind[OF fr_set_field], assumption)+
  apply (rule fr_ret, assumption)
  done

lemma fr_compose_grasp_pose:
  "fr h0 (compose_grasp_pose L G t src) (\<lambda>a. length h0 \<le> a)"
  unfolding compose_grasp_pose_def
  by (rule fr_bind[OF fr_show_grasp_transform], rule fr_pose_of_transform)

lemma fr_get_target_grasp_pose:
  "fr h0 (get_target_grasp_pose L G src) (\<lambda>a. length h0 \<le> a)"
  unfolding get_target_grasp_pose_def
  by (rule fr_bind[OF fr_source_into_robot_frame], rule fr_bind[OF fr_source_to_process],
      rule fr_bind[OF fr_register_source], rule fr_compose_grasp_pose)


lemma fr_init_module: "fr h0 (init_module L F) (\<lambda>_. True)"
  unfolding init_module_def
  apply (rule fr_bind[OF fr_alloc])+
  apply (rule fr_bind[OF fr_create_from_points])
  apply (rule fr_bind[OF fr_set_box_color], assumption)
  apply (rule fr_bind[OF fr_create_coordinate_frame])+
  apply (rule fr_bind[OF fr_transform], assumption)
  apply (rule fr_bind[OF fr_alloc])
  apply (rule fr_bind[OF fr_transform], assumption)
  apply (rule fr_bind[OF fr_paint_uniform_color], assumption)
  apply (rule fr_bind[OF fr_preprocess_point_cloud])
  apply (clarsimp split: prod.splits)
  apply (rule fr_bind[OF fr_np_copy])
  apply (rule fr_bind[OF fr_alloc])
  apply (rule fr_ret, simp)
  done

lemma frD:
  assumes "fr (heap s) m R" and "m s = (r, s')"
  shows "length (heap s) \<le> length (heap s')"
    and "\<And>a. a < length (heap s) \<Longrightarrow> heap s' ! a = heap s ! a"
    and "\<And>v. r = Inr v \<Longrightarrow> R v"
proof -
  have e: "extends (heap s) s'" and R: "\<And>v. r = Inr v \<Longrightarrow> R v"
    using assms extends_refl[of s] by (cases r; auto simp: fr_def)+
  show "length (heap s) \<le> length (heap s')" using e by (rule extends_length)
  show "\<And>a. a < length (heap s) \<Longrightarrow> heap s' ! a = heap s ! a" using e by (rule extends_nth)
  show "\<And>v. r = Inr v \<Longrightarrow> R v" by (rule R)
qed

lemma preprocess_point_cloud_result:
  assumes "preprocess_point_cloud L pcd v rn rf s = (Inr (d, f), s')"
  shows "d = length (heap s) \<and> f = Suc (length (heap s)) \<and> length (heap s') = length (heap s) + 2
    \<and> stdout s' = stdout s \<and> windows s' = windows s"
  using assms
  by (auto simp: preprocess_point_cloud_def prim_defs nth_append
      split: if_splits obj.splits sum.splits)

lemma init_module_result:
  assumes "init_module L F s0 = (Inr G, s1)"
  shows "G = \<lparr>transform_base_to_cam_hand_calibrated = length (heap s0),
      transform_cam_to_base_hand_calibrated = length (heap s0) + 1,
      transform_base_to_reference_grasp = length (heap s0) + 2,
      workspace_bounding_box = length (heap s0) + 3,
      robot_frame = length (heap s0) + 4,
      cam_frame = length (heap s0) + 5,
      target = length (heap s0) + 6,
      target_down = length (heap s0) + 7,
      target_fpfh = length (heap s0) + 8,
      init_transformation_for_global_registration = length (heap s0) + 9,
      pose_msg = length (heap s0) + 10\<rparr> \<and> length (heap s1) = length (heap s0) + 11"
  using assms
  by (auto simp: init_module_def preprocess_point_cloud_def prim_defs nth_append
      split: if_splits obj.splits sum.splits)


lemmas pipeline_defs = get_target_grasp_pose_def source_into_robot_frame_def
  source_to_process_def register_source_def show_grasp_transform_def pose_of_transform_def
  compose_grasp_pose_def preprocess_point_cloud_def execute_fast_global_registration_def
  refine_registration_def

lemma sample_call_value:
  "sample_call =
   (Inr 23,
    \<lparr>heap = sample_heap @
       [PointCloud far_cloud,
        PointCloud \<lparr>points = [(5, 5, 6)], normals = [], colors = [(0, 0, 1)]\<rparr>,
        PointCloud \<lparr>points = [(5, 5, 5)], normals = [], colors = [(0, 0, 1)]\<rparr>,
        PointCloud \<lparr>points = [], normals = [], colors = []\<rparr>,
        PointCloud \<lparr>points = [(5, 5, 5)], normals = [(0, 0, 1)], colors = [(0, 0, 1)]\<rparr>,
        Feature [[0]],
        NdArray identity4,
        NdArray identity4,
        NdArray sample_base_to_cam,
        TriangleMesh \<lparr>vertices = [(1 / 2, 0, 5 / 4), (7 / 10, 0, 5 / 4),
                                  (1 / 2, 1 / 5, 5 / 4), (1 / 2, 0, 29 / 20)],
                      vertex_normals = [], triangles = []\<rparr>,
        NdArray sample_cam_to_base,
        NdArray ((1, 0, 0, 1 / 2), (0, 1, 0, 0), (0, 0, 1, 5 / 4), (0, 0, 0, 1)),
        PoseStamped \<lparr>header_seq = 0, header_stamp = (0, 0), header_frame_id = [],
          position_x = 1 / 2, position_y = 0, position_z = 5 / 4,
          orientation_x = 0, orientation_y = 0, orientation_z = 0, orientation_w = 1\<rparr>],
     stdout = [''[INFO] Fast global registration with fpfh features'',
               ''[INFO] Point-to-plane ICP registration'',
               ''[INFO] Visualizing the found grasping pose''],
     windows = [(''Grasping pose proposal'', [4, 20, 12, 6])]\<rparr>)"
  by (simp add: sample_call_def pipeline_defs prim_defs mat_defs geom_defs sample_defs
      const_defs mat_inv_def is_geometry_def)

lemma preprocess_point_cloud_quiet:
  assumes "preprocess_point_cloud L pcd v rn rf s = (r, s')"
  shows "stdout s' = stdout s \<and> windows s' = windows s"
  using assms
  by (auto simp: preprocess_point_cloud_def prim_defs nth_append
      split: if_splits obj.splits sum.splits)

lemma sample_preprocess_value:
  "preprocess_point_cloud sample_backend 6 VOXEL_SIZE RADIUS_NORMAL RADIUS_FEATURE sample_world =
     (Inr (11, 12),
      sample_world\<lparr>heap := sample_heap @
        [PointCloud \<lparr>points = [(0, 0, 0)], normals = [(0, 0, 1)],
                     colors = [(6 / 10, 6 / 10, 6 / 10)]\<rparr>,
         Feature [[0]]]\<rparr>)"
  by (simp add: pipeline_defs prim_defs sample_defs const_defs)

lemma extends_after:
  assumes "extends h0 s" and "fr h0 m R" and "m s = (r, s')"
  shows "extends h0 s'"
  using assms by (cases r) (auto simp: fr_def)

lemma init_sample:
  "init_module sample_backend sample_files empty_world = (Inr sample_globals, sample_world)"
  by (simp add: init_module_def pipeline_defs prim_defs mat_defs geom_defs sample_defs const_defs)

lemma mat4_cases:
  obtains a00 a01 a02 a03 a10 a11 a12 a13 a20 a21 a22 a23 a30 a31 a32 a33 :: real
  where "A = ((a00, a01, a02, a03), (a10, a11, a12, a13),
              (a20, a21, a22, a23), (a30, a31, a32, a33))"
  by (metis prod.exhaust)

lemma mat_mul_identity_left: "mat_mul identity4 B = B"
  by (cases B rule: mat4_cases) (simp add: identity4_def mat_defs)

lemma mat_mul_identity_right: "mat_mul A identity4 = A"
  by (cases A rule: mat4_cases) (simp add: identity4_def mat_defs)

lemma det4_identity: "det4 identity4 = 1"
  by (simp add: identity4_def det4_def)

lemma mat_inv_identity: "mat_inv identity4 = Inr identity4"
  by (simp add: mat_inv_def det4_identity) (simp add: identity4_def mat_defs)

lemma adjugate4_left: "mat_mul (adjugate4 A) A = scale_mat4 (det4 A) identity4"
  by (cases A rule: mat4_cases) (simp add: identity4_def mat_defs algebra_simps)

lemma adjugate4_right: "mat_mul A (adjugate4 A) = scale_mat4 (det4 A) identity4"
  by (cases A rule: mat4_cases) (simp add: identity4_def mat_defs algebra_simps)

lemma mat_mul_scale_left: "mat_mul (scale_mat4 k A) B = scale_mat4 k (mat_mul A B)"
  by (cases A rule: mat4_cases, cases B rule: mat4_cases) (simp add: mat_defs algebra_simps)

lemma mat_mul_scale_right: "mat_mul A (scale_mat4 k B) = scale_mat4 k (mat_mul A B)"
  by (cases A rule: mat4_cases, cases B rule: mat4_cases) (simp add: mat_defs algebra_simps)

lemma scale_scale_identity: "k \<noteq> 0 \<Longrightarrow> scale_mat4 (1 / k) (scale_mat4 k identity4) = identity4"
  by (simp add: identity4_def scale_mat4_def scale4_def)

lemma mat_inv_correct:
  assumes "mat_inv A = Inr B"
  shows "mat_mul B A = identity4" and "mat_mul A B = identity4"
proof -
  from assms have d: "det4 A \<noteq> 0" and B: "B = scale_mat4 (1 / det4 A) (adjugate4 A)"
    by (auto simp: mat_inv_def split: if_splits)
  show "mat_mul B A = identity4"
    by (simp add: B mat_mul_scale_left adjugate4_left scale_scale_identity[OF d])
  show "mat_mul A B = identity4"
    by (simp add: B mat_mul_scale_right adjugate4_right scale_scale_identity[OF d])
qed

lemma mat_inv_fails_iff: "(\<exists>e. mat_inv A = Inl e) \<longleftrightarrow> det4 A = 0"
  by (simp add: mat_inv_def)

lemma transform_point_mat_mul:
  assumes "affine D"
  shows "transform_point (mat_mul A D) p = transform_point A (transform_point D p)"
proof -
  obtain x y z where p: "p = (x, y, z)" by (metis prod.exhaust)
  obtain a00 a01 a02 a03 a10 a11 a12 a13 a20 a21 a22 a23 a30 a31 a32 a33
    where A: "A = ((a00, a01, a02, a03), (a10, a11, a12, a13),
                   (a20, a21, a22, a23), (a30, a31, a32, a33))"
    by (rule mat4_cases)
  obtain d00 d01 d02 d03 d10 d11 d12 d13 d20 d21 d22 d23 d30 d31 d32 d33
    where D: "D = ((d00, d01, d02, d03), (d10, d11, d12, d13),
                   (d20, d21, d22, d23), (d30, d31, d32, d33))"
    by (rule mat4_cases)
  from assms have b: "d30 = 0" "d31 = 0" "d32 = 0" "d33 = 1"
    by (simp_all add: affine_def bottom_row_def D)
  show ?thesis
    by (simp add: p A D b transform_point_def mat_defs algebra_simps)
qed

lemma source_into_robot_frame_run:
  assumes "source_pcd < length (heap s)" "heap s ! source_pcd = PointCloud c"
    and "transform_cam_to_base_hand_calibrated G < length (heap s)"
    and "heap s ! transform_cam_to_base_hand_calibrated G = NdArray C"
  shows "source_into_robot_frame G source_pcd s =
     (Inr (length (heap s)),
      s\<lparr>heap := heap s @ [PointCloud (transform_cloud C (paint_cloud (0, 0, 1) c))]\<rparr>)"
  using assms by (simp add: source_into_robot_frame_def prim_defs nth_append)

lemma source_to_process_run:
  assumes "a < length (heap s)" "heap s ! a = PointCloud c"
    and "workspace_bounding_box G < length (heap s)"
    and "heap s ! workspace_bounding_box G = OrientedBoundingBox b"
    and "init_transformation_for_global_registration G < length (heap s)"
    and "heap s ! init_transformation_for_global_registration G = NdArray D"
  shows "source_to_process G a s =
     (Inr (length (heap s)),
      s\<lparr>heap := heap s @ [PointCloud (transform_cloud D c), PointCloud (crop_cloud b c)]\<rparr>)"
  using assms by (simp add: source_to_process_def prim_defs nth_append)

lemma preprocess_point_cloud_run:
  assumes "pcd < length (heap s)" "heap s ! pcd = PointCloud c"
    and "o3d_voxel_down_sample L v c = Inr d"
    and "o3d_estimate_normals L (rn, 100) d = Inr d'"
    and "o3d_compute_fpfh_feature L (rf, 200) d' = Inr f"
  shows "preprocess_point_cloud L pcd v rn rf s =
     (Inr (length (heap s), Suc (length (heap s))),
      s\<lparr>heap := heap s @ [PointCloud d', Feature f]\<rparr>)"
  using assms by (simp add: preprocess_point_cloud_def prim_defs nth_append)

lemma register_source_run:
  assumes "a < length (heap s)" "heap s ! a = PointCloud c"
    and "target_down G < length (heap s)" "heap s ! target_down G = PointCloud td"
    and "target_fpfh G < length (heap s)" "heap s ! target_fpfh G = Feature tf"
    and "init_transformation_for_global_registration G < length (heap s)"
    and "heap s ! init_transformation_for_global_registration G = NdArray D"
    and "o3d_voxel_down_sample L VOXEL_SIZE c = Inr d"
    and "o3d_estimate_normals L (RADIUS_NORMAL, 100) d = Inr sd"
    and "o3d_compute_fpfh_feature L (RADIUS_FEATURE, 200) sd = Inr sf"
    and "o3d_registration_fast L GLOBAL_DISTANCE_THRESHOLD sd td sf tf = Inr result_fast"
    and "o3d_registration_icp L ICP_REFINE_DISTANCE_THRESHOLD (transformation result_fast) sd td
           = Inr result_refine"
  shows "register_source L G a s =
     (Inr (length (heap s) + 4),
      s\<lparr>heap := heap s @
          [PointCloud sd, Feature sf, NdArray (transformation result_fast),
           NdArray (transformation result_refine),
           NdArray (mat_mul (transformation result_refine) D)],
        stdout := stdout s @ [''[INFO] Fast global registration with fpfh features'',
                              ''[INFO] Point-to-plane ICP registration'']\<rparr>)"
  using assms
  by (simp add: register_source_def preprocess_point_cloud_def
      execute_fast_global_registration_def refine_registration_def prim_defs nth_append)

lemma is_geometry_simps:
  "is_geometry (PointCloud c)" "is_geometry (TriangleMesh m)"
  "is_geometry (OrientedBoundingBox b)" "\<not> is_geometry (Feature f)"
  "\<not> is_geometry (NdArray A)" "\<not> is_geometry (PoseStamped p)"
  by (simp_all add: is_geometry_def)

lemma show_grasp_transform_run:
  assumes "t < length (heap s)" "heap s ! t = NdArray T"
    and "transform_base_to_reference_grasp G < length (heap s)"
    and "heap s ! transform_base_to_reference_grasp G = NdArray Tref"
    and "mat_inv T = Inr Ti"
    and "robot_frame G < length (heap s)" "is_geometry (heap s ! robot_frame G)"
    and "target G < length (heap s)" "is_geometry (heap s ! target G)"
    and "src < length (heap s)" "is_geometry (heap s ! src)"
  shows "show_grasp_transform L G t src s =
     (Inr (length (heap s) + 2),
      s\<lparr>heap := heap s @
          [TriangleMesh (transform_mesh (mat_mul Ti Tref) (o3d_create_coordinate_frame L (2 / 10))),
           NdArray Ti, NdArray (mat_mul Ti Tref)],
        stdout := stdout s @ [''[INFO] Visualizing the found grasping pose''],
        windows := windows s @
          [(''Grasping pose proposal'', [robot_frame G, length (heap s), src, target G])]\<rparr>)"
  using assms
  by (simp add: show_grasp_transform_def prim_defs nth_append is_geometry_simps)

lemma show_grasp_transform_singular:
  assumes "t < length (heap s)" "heap s ! t = NdArray T"
    and "mat_inv T = Inl e"
  shows "fst (show_grasp_transform L G t src s) = Inl (LibraryError e)"
  using assms
  by (simp add: show_grasp_transform_def prim_defs nth_append)

lemma pose_of_transform_run:
  assumes "g < length (heap s)" "heap s ! g = NdArray M"
    and "quat_from_rotation_matrix L (rotation_block M) = Inr (qw, qx, qy, qz)"
    and "translation_column M = (tx, ty, tz)"
    and "pose_msg G < length (heap s)" "heap s ! pose_msg G = PoseStamped m0"
  shows "pose_of_transform L G g s =
     (Inr (length (heap s)),
      s\<lparr>heap := heap s @
          [PoseStamped (m0\<lparr>position_x := tx, position_y := ty, position_z := tz,
             orientation_x := qx, orientation_y := qy, orientation_z := qz,
             orientation_w := qw\<rparr>)]\<rparr>)"
  using assms
  by (simp add: pose_of_transform_def prim_defs nth_append)

lemma pose_of_transform_quat_fails:
  assumes "g < length (heap s)" "heap s ! g = NdArray M"
    and "quat_from_rotation_matrix L (rotation_block M) = Inl e"
  shows "pose_of_transform L G g s = (Inl (LibraryError e), s)"
  using assms
  by (simp add: pose_of_transform_def prim_defs nth_append)

lemma compose_grasp_pose_run:
  assumes "t < length (heap s)" "heap s ! t = NdArray T"
    and "transform_base_to_reference_grasp G < length (heap s)"
    and "heap s ! transform_base_to_reference_grasp G = NdArray Tref"
    and "mat_inv T = Inr Ti"
    and "robot_frame G < length (heap s)" "is_geometry (heap s ! robot_frame G)"
    and "target G < length (heap s)" "is_geometry (heap s ! target G)"
    and "src < length (heap s)" "is_geometry (heap s ! src)"
    and "pose_msg G < length (heap s)" "heap s ! pose_msg G = PoseStamped m0"
    and "quat_from_rotation_matrix L (rotation_block (mat_mul Ti Tref)) = Inr (qw, qx, qy, qz)"
    and "translation_column (mat_mul Ti Tref) = (tx, ty, tz)"
  shows "compose_grasp_pose L G t src s =
     (Inr (length (heap s) + 3),
      s\<lparr>heap := heap s @
          [TriangleMesh (transform_mesh (mat_mul Ti Tref) (o3d_create_coordinate_frame L (2 / 10))),
           NdArray Ti, NdArray (mat_mul Ti Tref),
           PoseStamped (m0\<lparr>position_x := tx, position_y := ty, position_z := tz,
             orientation_x := qx, orientation_y := qy, orientation_z := qz,
             orientation_w := qw\<rparr>)],
        stdout := stdout s @ [''[INFO] Visualizing the found grasping pose''],
        windows := windows s @
          [(''Grasping pose proposal'', [robot_frame G, length (heap s), src, target G])]\<rparr>)"
  using assms
  by (simp add: compose_grasp_pose_def show_grasp_transform_def pose_of_transform_def
      prim_defs nth_append list_update_append is_geometry_simps)

lemma init_module_objects:
  assumes "init_module L F s0 = (Inr G, s1)"
  shows "heap s1 ! transform_base_to_cam_hand_calibrated G = NdArray (npy_base_to_cam F)"
    and "heap s1 ! transform_cam_to_base_hand_calibrated G = NdArray (npy_cam_to_base F)"
    and "heap s1 ! transform_base_to_reference_grasp G = NdArray (npy_base_to_reference_grasp F)"
    and "heap s1 ! init_transformation_for_global_registration G = NdArray (npy_base_to_cam F)"
    and "heap s1 ! pose_msg G = PoseStamped new_PoseStamped"
    and "\<exists>b. heap s1 ! workspace_bounding_box G = OrientedBoundingBox b"
    and "\<exists>m. heap s1 ! robot_frame G = TriangleMesh m"
    and "\<exists>c. heap s1 ! target G = PointCloud c"
    and "\<exists>c. heap s1 ! target_down G = PointCloud c"
    and "\<exists>f. heap s1 ! target_fpfh G = Feature f"
  using assms
  by (auto simp: init_module_def preprocess_point_cloud_def prim_defs nth_append
      list_update_append split: if_splits obj.splits sum.splits)

lemma bindp_run: "m s = (Inr v, s') \<Longrightarrow> bindp m f s = f v s'"
  by (simp add: bindp_def)

lemma bindp_InrE:
  assumes "bindp m f s = (Inr v, s')"
  obtains u t where "m s = (Inr u, t)" and "f u t = (Inr v, s')"
proof -
  obtain r t where ms: "m s = (r, t)" by (cases "m s")
  show ?thesis
  proof (cases r)
    case (Inl e)
    with ms assms show ?thesis by (simp add: bindp_def)
  next
    case (Inr u)
    with ms assms have "f u t = (Inr v, s')" by (simp add: bindp_def)
    with ms Inr that show ?thesis by blast
  qed
qed

lemma pose_of_transform_header:
  assumes "pose_of_transform L G g s = (Inr p, s')"
    and "pose_msg G < length (heap s)" "heap s ! pose_msg G = PoseStamped m0"
  shows "\<exists>m. heap s' ! p = PoseStamped m
       \<and> header_frame_id m = header_frame_id m0
       \<and> header_seq m = header_seq m0
       \<and> header_stamp m = header_stamp m0"
proof -
  from assms(1) obtain M where M: "g < length (heap s)" "heap s ! g = NdArray M"
    by (auto simp: pose_of_transform_def prim_defs split: if_splits obj.splits)
  from assms(1) M obtain q where q: "quat_from_rotation_matrix L (rotation_block M) = Inr q"
    by (cases "quat_from_rotation_matrix L (rotation_block M)")
       (auto simp: pose_of_transform_quat_fails)
  obtain qw qx qy qz where q': "q = (qw, qx, qy, qz)" by (metis prod.exhaust)
  obtain tx ty tz where tr: "translation_column M = (tx, ty, tz)" by (metis prod.exhaust)
  note run = pose_of_transform_run[OF M q[unfolded q'] tr assms(2,3)]
  from assms(1) show ?thesis unfolding run by auto
qed

text \<open>
  The cloud that \<^verbatim>\<open>crop\<close> returns holds no point strictly outside the box and
  every point strictly inside it.  The second part of the pipeline keeps every
  point of its input all the same, since it goes on with the receiver of
  \<^verbatim>\<open>crop\<close> and not with the cloud returned.
\<close>

lemma select_by_mask_map: "select_by_mask (map P xs) xs = filter P xs"
  by (induction xs) (simp_all add: select_by_mask_def)

lemma crop_cloud_points: "points (crop_cloud b c) = filter (within_box b) (points c)"
  by (simp add: crop_cloud_def select_by_mask_map)

lemma strictly_inside_within: "strictly_inside b p \<Longrightarrow> within_box b p"
  by (auto simp: strictly_inside_def within_box_def split: prod.splits)

lemma crop_cloud_region:
  "(\<forall>p \<in> set (points (crop_cloud b c)). \<not> strictly_outside b p)
   \<and> (\<forall>p \<in> set (points c). strictly_inside b p \<longrightarrow> p \<in> set (points (crop_cloud b c)))"
  by (auto simp: crop_cloud_points strictly_outside_def strictly_inside_within)

lemma source_to_process_keeps_every_point:
  assumes "a < length (heap s)" "heap s ! a = PointCloud c"
    and "workspace_bounding_box G < length (heap s)"
    and "heap s ! workspace_bounding_box G = OrientedBoundingBox b"
    and "init_transformation_for_global_registration G < length (heap s)"
    and "heap s ! init_transformation_for_global_registration G = NdArray D"
  shows "\<exists>s'. source_to_process G a s = (Inr (length (heap s)), s')
     \<and> heap s' ! length (heap s) = PointCloud (transform_cloud D c)
     \<and> points (transform_cloud D c) = map (transform_point D) (points c)"
  unfolding source_to_process_run[OF assms]
  by (simp add: transform_cloud_def)

text \<open>What a part of the pipeline that returns tells about the library calls it
  made.\<close>

lemma source_into_robot_frame_InrD:
  assumes "source_into_robot_frame G source_pcd s = (Inr a, t)"
  shows "\<exists>c. source_pcd < length (heap s) \<and> heap s ! source_pcd = PointCloud c"
  using assms
  by (auto simp: source_into_robot_frame_def prim_defs nth_append
      split: if_splits obj.splits)

lemma register_source_InrD:
  assumes "register_source L G a s = (Inr t, s')"
    and "a < length (heap s)" "heap s ! a = PointCloud c"
    and "target_down G < length (heap s)" "heap s ! target_down G = PointCloud td"
    and "target_fpfh G < length (heap s)" "heap s ! target_fpfh G = Feature tf"
  shows "\<exists>d sd sf result_fast result_refine.
       o3d_voxel_down_sample L VOXEL_SIZE c = Inr d
     \<and> o3d_estimate_normals L (RADIUS_NORMAL, 100) d = Inr sd
     \<and> o3d_compute_fpfh_feature L (RADIUS_FEATURE, 200) sd = Inr sf
     \<and> o3d_registration_fast L GLOBAL_DISTANCE_THRESHOLD sd td sf tf = Inr result_fast
     \<and> o3d_registration_icp L ICP_REFINE_DISTANCE_THRESHOLD (transformation result_fast) sd td
          = Inr result_refine"
  using assms
  by (auto simp: register_source_def preprocess_point_cloud_def
      execute_fast_global_registration_def refine_registration_def prim_defs nth_append
      split: sum.splits)

lemma show_grasp_transform_InrD:
  assumes "show_grasp_transform L G t src s = (Inr g, s')"
    and "t < length (heap s)" "heap s ! t = NdArray T"
  shows "\<exists>Ti. mat_inv T = Inr Ti"
  using assms
  by (auto simp: show_grasp_transform_def prim_defs nth_append split: sum.splits)

lemma pose_of_transform_InrD:
  assumes "pose_of_transform L G g s = (Inr p, s')"
    and "g < length (heap s)" "heap s ! g = NdArray M"
  shows "\<exists>qw qx qy qz. quat_from_rotation_matrix L (rotation_block M) = Inr (qw, qx, qy, qz)"
proof (cases "quat_from_rotation_matrix L (rotation_block M)")
  case (Inl e)
  with assms show ?thesis by (simp add: pose_of_transform_quat_fails)
next
  case (Inr q)
  then show ?thesis by (cases q) auto
qed

section \<open>Claims\<close>

text \<open>
  Claim C9.  Preprocessing has no side effect beyond returning new data: whatever
  the call does (return or raise), every object that existed before it, the
  input cloud among them, has the value it had before, nothing is printed and no
  window is shown; when it returns, the down-sampled cloud and the descriptors
  are two new objects.
\<close>

theorem preprocess_leaves_input_unchanged:
  assumes "preprocess_point_cloud L pcd voxel_size radius_normal radius_feature s = (r, s')"
  shows "(\<forall>a < length (heap s). heap s' ! a = heap s ! a)
       \<and> stdout s' = stdout s \<and> windows s' = windows s
       \<and> (\<forall>pcd_down pcd_fpfh. r = Inr (pcd_down, pcd_fpfh) \<longrightarrow>
            pcd_down = length (heap s) \<and> pcd_fpfh = Suc (length (heap s))
            \<and> length (heap s') = length (heap s) + 2)"
proof -
  have "fr (heap s) (preprocess_point_cloud L pcd voxel_size radius_normal radius_feature)
          (\<lambda>(d, f). length (heap s) \<le> d \<and> length (heap s) \<le> f)"
    by (rule fr_preprocess_point_cloud)
  from frD(2)[OF this assms] have "\<forall>a < length (heap s). heap s' ! a = heap s ! a"
    by blast
  moreover have "stdout s' = stdout s \<and> windows s' = windows s"
    using assms by (rule preprocess_point_cloud_quiet)
  moreover have "\<forall>pcd_down pcd_fpfh. r = Inr (pcd_down, pcd_fpfh) \<longrightarrow>
            pcd_down = length (heap s) \<and> pcd_fpfh = Suc (length (heap s))
            \<and> length (heap s') = length (heap s) + 2"
    using assms preprocess_point_cloud_result by blast
  ultimately show ?thesis by blast
qed

text \<open>The claim on the reference cloud of the sample scene.\<close>

theorem preprocess_leaves_input_unchanged_witness:
  "fst (preprocess_point_cloud sample_backend 6 VOXEL_SIZE RADIUS_NORMAL RADIUS_FEATURE
          sample_world) = Inr (11, 12)
   \<and> heap (snd (preprocess_point_cloud sample_backend 6 VOXEL_SIZE RADIUS_NORMAL RADIUS_FEATURE
          sample_world)) ! 6 =
       PointCloud \<lparr>points = [(0, 0, 0)], normals = [], colors = [(6 / 10, 6 / 10, 6 / 10)]\<rparr>
   \<and> length (heap (snd (preprocess_point_cloud sample_backend 6 VOXEL_SIZE RADIUS_NORMAL
          RADIUS_FEATURE sample_world))) = 13"
proof -
  from preprocess_leaves_input_unchanged[OF sample_preprocess_value]
  have "heap (sample_world\<lparr>heap := sample_heap @
        [PointCloud \<lparr>points = [(0, 0, 0)], normals = [(0, 0, 1)],
                     colors = [(6 / 10, 6 / 10, 6 / 10)]\<rparr>,
         Feature [[0]]]\<rparr>) ! 6 = heap sample_world ! 6"
    by (simp add: sample_world_def sample_heap_def)
  then show ?thesis
    unfolding sample_preprocess_value by (simp add: sample_world_def sample_heap_def)
qed

text \<open>
  Claim C8.  The objects bound at module level are created once, by the module
  initialisation, and no call of the pipeline changes them: in any later state
  that still extends the state reached by the initialisation, a call (returning
  or raising) leaves every shared object with the value the initialisation gave
  it, leaves every other existing object as it was, and ends in a state that
  again extends the initial one, so the same holds for the next call.  A
  returned pose is a new object.
\<close>

theorem shared_state_unchanged_by_call:
  assumes "init_module L F s0 = (Inr G, s1)"
    and "extends (heap s1) s"
    and "get_target_grasp_pose L G source_pcd s = (r, s')"
  shows "extends (heap s1) s'
       \<and> (\<forall>g \<in> set (shared_objects G). g < length (heap s1) \<and> heap s' ! g = heap s1 ! g)
       \<and> (\<forall>a < length (heap s). heap s' ! a = heap s ! a)
       \<and> (\<forall>pose. r = Inr pose \<longrightarrow> length (heap s) \<le> pose)"
proof -
  have ext: "extends (heap s1) s'"
    using assms(2) fr_get_target_grasp_pose assms(3) by (rule extends_after)
  have alloc: "\<forall>g \<in> set (shared_objects G). g < length (heap s1)"
    using init_module_result[OF assms(1)] by (auto simp: shared_objects_def)
  have kept: "\<forall>g \<in> set (shared_objects G). heap s' ! g = heap s1 ! g"
    using alloc extends_nth[OF ext] by blast
  have "fr (heap s) (get_target_grasp_pose L G source_pcd) (\<lambda>a. length (heap s) \<le> a)"
    by (rule fr_get_target_grasp_pose)
  from frD(2)[OF this assms(3)] frD(3)[OF this assms(3)]
  have "(\<forall>a < length (heap s). heap s' ! a = heap s ! a)
      \<and> (\<forall>pose. r = Inr pose \<longrightarrow> length (heap s) \<le> pose)"
    by blast
  with ext alloc kept show ?thesis by blast
qed

text \<open>The claim on the call in the sample scene.\<close>

theorem shared_state_unchanged_by_call_witness:
  "init_module sample_backend sample_files empty_world = (Inr sample_globals, sample_world)
   \<and> extends (heap sample_world) (with_object (PointCloud far_cloud) sample_world)
   \<and> fst sample_call = Inr 23
   \<and> extends (heap sample_world) (snd sample_call)
   \<and> heap (snd sample_call) ! target_down sample_globals = sample_heap ! 7
   \<and> heap (snd sample_call) ! 11 = PointCloud far_cloud"
proof -
  have e: "extends (heap sample_world) (with_object (PointCloud far_cloud) sample_world)"
    by (simp add: extends_def with_object_def)
  have c: "get_target_grasp_pose sample_backend sample_globals 11
             (with_object (PointCloud far_cloud) sample_world) = (fst sample_call, snd sample_call)"
    by (simp add: sample_call_def)
  from shared_state_unchanged_by_call[OF init_sample e c]
  show ?thesis
    using init_sample e
    by (simp add: sample_call_value shared_objects_def sample_globals_def sample_world_def
        with_object_def sample_heap_def)
qed

text \<open>
  Claim C10.  The displacement transform is a copy of the base-to-camera
  calibration array.  Before the registration the pipeline transforms the cloud
  to be processed by it, the registration runs on the displaced cloud, and the
  reported source-to-target transform is the refined registration transform
  multiplied by the displacement.  The displacement being affine, the reported
  transform sends a point of the cloud before the displacement to where the
  refined transform sends the displaced point.
\<close>

theorem reported_transform_includes_displacement:
  assumes init: "init_module L F s0 = (Inr G, s1)" and ext: "extends (heap s1) s"
    and aff: "affine (npy_base_to_cam F)"
    and src: "a < length (heap s)" "heap s ! a = PointCloud c"
    and tgt: "heap s1 ! target_down G = PointCloud td" "heap s1 ! target_fpfh G = Feature tf"
    and lib: "o3d_voxel_down_sample L VOXEL_SIZE (transform_cloud (npy_base_to_cam F) c) = Inr d"
      "o3d_estimate_normals L (RADIUS_NORMAL, 100) d = Inr sd"
      "o3d_compute_fpfh_feature L (RADIUS_FEATURE, 200) sd = Inr sf"
      "o3d_registration_fast L GLOBAL_DISTANCE_THRESHOLD sd td sf tf = Inr result_fast"
      "o3d_registration_icp L ICP_REFINE_DISTANCE_THRESHOLD (transformation result_fast) sd td
         = Inr result_refine"
  shows "heap s ! init_transformation_for_global_registration G = NdArray (npy_base_to_cam F)
     \<and> heap s ! transform_base_to_cam_hand_calibrated G = NdArray (npy_base_to_cam F)
     \<and> (\<exists>s'. bindp (source_to_process G a) (register_source L G) s
                 = (Inr (length (heap s) + 6), s')
          \<and> heap s' ! length (heap s) = PointCloud (transform_cloud (npy_base_to_cam F) c)
          \<and> heap s' ! (length (heap s) + 2) = PointCloud sd
          \<and> heap s' ! (length (heap s) + 6)
              = NdArray (mat_mul (transformation result_refine) (npy_base_to_cam F)))
     \<and> (\<forall>p. transform_point (mat_mul (transformation result_refine) (npy_base_to_cam F)) p
            = transform_point (transformation result_refine)
                (transform_point (npy_base_to_cam F) p))"
proof -
  let ?D = "npy_base_to_cam F"
  note res = init_module_result[OF init]
  note objs = init_module_objects[OF init]
  have len: "length (heap s1) \<le> length (heap s)" using ext by (rule extends_length)
  have G: "init_transformation_for_global_registration G < length (heap s1)"
      "transform_base_to_cam_hand_calibrated G < length (heap s1)"
      "workspace_bounding_box G < length (heap s1)"
      "target_down G < length (heap s1)" "target_fpfh G < length (heap s1)"
    using res by auto
  obtain b where b1: "heap s1 ! workspace_bounding_box G = OrientedBoundingBox b"
    using objs(6) by blast
  have at_s: "heap s ! init_transformation_for_global_registration G = NdArray ?D"
      "heap s ! transform_base_to_cam_hand_calibrated G = NdArray ?D"
      "heap s ! workspace_bounding_box G = OrientedBoundingBox b"
      "heap s ! target_down G = PointCloud td" "heap s ! target_fpfh G = Feature tf"
    using extends_nth[OF ext] G objs(1,4) b1 tgt by simp_all
  have lt_s: "init_transformation_for_global_registration G < length (heap s)"
      "workspace_bounding_box G < length (heap s)"
      "target_down G < length (heap s)" "target_fpfh G < length (heap s)"
    using G len by simp_all
  let ?s2 = "s\<lparr>heap := heap s @ [PointCloud (transform_cloud ?D c), PointCloud (crop_cloud b c)]\<rparr>"
  have step1: "source_to_process G a s = (Inr (length (heap s)), ?s2)"
    using src lt_s(2) at_s(3) lt_s(1) at_s(1) by (rule source_to_process_run)
  have step2: "register_source L G (length (heap s)) ?s2 =
     (Inr (length (heap ?s2) + 4),
      ?s2\<lparr>heap := heap ?s2 @
          [PointCloud sd, Feature sf, NdArray (transformation result_fast),
           NdArray (transformation result_refine),
           NdArray (mat_mul (transformation result_refine) ?D)],
        stdout := stdout ?s2 @ [''[INFO] Fast global registration with fpfh features'',
                              ''[INFO] Point-to-plane ICP registration'']\<rparr>)"
    by (rule register_source_run[where c = "transform_cloud ?D c" and td = td and tf = tf
          and d = d, OF _ _ _ _ _ _ _ _ lib])
       (use lt_s at_s in \<open>simp_all add: nth_append\<close>)
  have run: "\<exists>s'. bindp (source_to_process G a) (register_source L G) s
                 = (Inr (length (heap s) + 6), s')
          \<and> heap s' ! length (heap s) = PointCloud (transform_cloud ?D c)
          \<and> heap s' ! (length (heap s) + 2) = PointCloud sd
          \<and> heap s' ! (length (heap s) + 6)
              = NdArray (mat_mul (transformation result_refine) ?D)"
  proof -
    have "bindp (source_to_process G a) (register_source L G) s
            = register_source L G (length (heap s)) ?s2"
      by (simp add: bindp_def step1)
    then show ?thesis unfolding step2 by (simp add: nth_append)
  qed
  have act: "\<forall>p. transform_point (mat_mul (transformation result_refine) ?D) p
            = transform_point (transformation result_refine) (transform_point ?D p)"
    using transform_point_mat_mul[OF aff] by blast
  from at_s(1,2) run act show ?thesis by blast
qed

text \<open>The claim in the sample scene, on the far cloud in the robot frame.\<close>

theorem reported_transform_includes_displacement_witness:
  "affine sample_base_to_cam
   \<and> fst (bindp (source_to_process sample_globals 11) (register_source sample_backend sample_globals)
          (with_object (PointCloud robot_frame_cloud) sample_world)) = Inr 18
   \<and> transform_point (mat_mul identity4 sample_base_to_cam) (5, 5, 6)
       = transform_point identity4 (transform_point sample_base_to_cam (5, 5, 6))
   \<and> transform_point sample_base_to_cam (5, 5, 6) = (5, 5, 5)"
proof -
  let ?s = "with_object (PointCloud robot_frame_cloud) sample_world"
  have aff: "affine (npy_base_to_cam sample_files)"
    by (simp add: affine_def bottom_row_def sample_defs)
  have e: "extends (heap sample_world) ?s"
    by (simp add: extends_def with_object_def)
  have *: "heap ?s ! init_transformation_for_global_registration sample_globals
             = NdArray (npy_base_to_cam sample_files)
     \<and> heap ?s ! transform_base_to_cam_hand_calibrated sample_globals
             = NdArray (npy_base_to_cam sample_files)
     \<and> (\<exists>s'. bindp (source_to_process sample_globals 11)
                  (register_source sample_backend sample_globals) ?s
                 = (Inr (length (heap ?s) + 6), s')
          \<and> heap s' ! length (heap ?s)
              = PointCloud (transform_cloud (npy_base_to_cam sample_files) robot_frame_cloud)
          \<and> heap s' ! (length (heap ?s) + 2)
              = PointCloud \<lparr>points = [(5, 5, 5)], normals = [(0, 0, 1)], colors = [(0, 0, 1)]\<rparr>
          \<and> heap s' ! (length (heap ?s) + 6)
              = NdArray (mat_mul (transformation (sample_result identity4))
                           (npy_base_to_cam sample_files)))
     \<and> (\<forall>p. transform_point (mat_mul (transformation (sample_result identity4))
                                (npy_base_to_cam sample_files)) p
            = transform_point (transformation (sample_result identity4))
                (transform_point (npy_base_to_cam sample_files) p))"
    by (rule reported_transform_includes_displacement[OF init_sample e aff,
          where td = "\<lparr>points = [(0, 0, 0)], normals = [(0, 0, 1)],
                         colors = [(6 / 10, 6 / 10, 6 / 10)]\<rparr>"
            and tf = "[[0]]"
            and d = "\<lparr>points = [(5, 5, 5)], normals = [], colors = [(0, 0, 1)]\<rparr>"
            and sf = "[[0]]" and result_fast = "sample_result identity4"])
       (simp_all add: sample_defs robot_frame_cloud_def const_defs geom_defs mat_defs)
  have len: "length (heap ?s) = 12"
    by (simp add: with_object_def sample_world_def sample_heap_def)
  from * obtain s' where "bindp (source_to_process sample_globals 11)
                  (register_source sample_backend sample_globals) ?s
                 = (Inr (length (heap ?s) + 6), s')"
    by blast
  then have "fst (bindp (source_to_process sample_globals 11)
                  (register_source sample_backend sample_globals) ?s) = Inr 18"
    unfolding len by simp
  moreover from * have "transform_point (mat_mul identity4 sample_base_to_cam) (5, 5, 6)
       = transform_point identity4 (transform_point sample_base_to_cam (5, 5, 6))"
    by (simp add: sample_result_def sample_files_def)
  moreover have "transform_point sample_base_to_cam (5, 5, 6) = (5, 5, 5)"
    by (simp add: sample_defs geom_defs mat_defs)
  moreover have "affine sample_base_to_cam"
    by (simp add: affine_def bottom_row_def sample_defs)
  ultimately show ?thesis by blast
qed

text \<open>
  Claim C2.  The grasp transform from which the pose is built is the inverse of
  the source-to-target transform times the reference grasp transform: the
  inverse is a two-sided inverse, the product is the array the pose is read
  from, the position of the returned pose is its translation column and the
  orientation is the quaternion the library gives for its rotation block.  When
  the source-to-target transform is the identity, the product is the reference
  grasp transform itself, so the pose carries the translation and the quaternion
  of the reference grasp.
\<close>

theorem grasp_transform_is_inverse_times_reference:
  assumes "t < length (heap s)" "heap s ! t = NdArray T"
    and "transform_base_to_reference_grasp G < length (heap s)"
    and "heap s ! transform_base_to_reference_grasp G = NdArray Tref"
    and "mat_inv T = Inr Ti"
    and "robot_frame G < length (heap s)" "is_geometry (heap s ! robot_frame G)"
    and "target G < length (heap s)" "is_geometry (heap s ! target G)"
    and "src < length (heap s)" "is_geometry (heap s ! src)"
    and "pose_msg G < length (heap s)" "heap s ! pose_msg G = PoseStamped m0"
    and "quat_from_rotation_matrix L (rotation_block (mat_mul Ti Tref)) = Inr (qw, qx, qy, qz)"
    and "translation_column (mat_mul Ti Tref) = (tx, ty, tz)"
  shows "mat_mul Ti T = identity4 \<and> mat_mul T Ti = identity4
     \<and> (\<exists>s'. compose_grasp_pose L G t src s = (Inr (length (heap s) + 3), s')
          \<and> heap s' ! (length (heap s) + 2) = NdArray (mat_mul Ti Tref)
          \<and> heap s' ! (length (heap s) + 3) =
              PoseStamped (m0\<lparr>position_x := tx, position_y := ty, position_z := tz,
                orientation_x := qx, orientation_y := qy, orientation_z := qz,
                orientation_w := qw\<rparr>))
     \<and> (T = identity4 \<longrightarrow>
          mat_mul Ti Tref = Tref
          \<and> translation_column Tref = (tx, ty, tz)
          \<and> quat_from_rotation_matrix L (rotation_block Tref) = Inr (qw, qx, qy, qz))"
proof -
  have inv: "mat_mul Ti T = identity4 \<and> mat_mul T Ti = identity4"
    using mat_inv_correct[OF assms(5)] by simp
  have run: "\<exists>s'. compose_grasp_pose L G t src s = (Inr (length (heap s) + 3), s')
          \<and> heap s' ! (length (heap s) + 2) = NdArray (mat_mul Ti Tref)
          \<and> heap s' ! (length (heap s) + 3) =
              PoseStamped (m0\<lparr>position_x := tx, position_y := ty, position_z := tz,
                orientation_x := qx, orientation_y := qy, orientation_z := qz,
                orientation_w := qw\<rparr>)"
    unfolding compose_grasp_pose_run[OF assms] by (simp add: nth_append)
  have idc: "T = identity4 \<longrightarrow>
          mat_mul Ti Tref = Tref
          \<and> translation_column Tref = (tx, ty, tz)
          \<and> quat_from_rotation_matrix L (rotation_block Tref) = Inr (qw, qx, qy, qz)"
  proof
    assume "T = identity4"
    with assms(5) have "Ti = identity4" by (simp add: mat_inv_identity)
    then have "mat_mul Ti Tref = Tref" by (simp add: mat_mul_identity_left)
    with assms(14,15) show "mat_mul Ti Tref = Tref
          \<and> translation_column Tref = (tx, ty, tz)
          \<and> quat_from_rotation_matrix L (rotation_block Tref) = Inr (qw, qx, qy, qz)"
      by simp
  qed
  from inv run idc show ?thesis by blast
qed

text \<open>The claim in the sample scene, with the identity as the source-to-target
  transform (address 11) and the target cloud shown as the source.\<close>

theorem grasp_transform_is_inverse_times_reference_witness:
  "mat_inv identity4 = Inr identity4
   \<and> fst (compose_grasp_pose sample_backend sample_globals 11 6
            (with_object (NdArray identity4) sample_world)) = Inr 15
   \<and> heap (snd (compose_grasp_pose sample_backend sample_globals 11 6
            (with_object (NdArray identity4) sample_world))) ! 15 =
       PoseStamped (new_PoseStamped\<lparr>position_x := 1 / 2, position_y := 0, position_z := 1 / 4,
                orientation_x := 0, orientation_y := 0, orientation_z := 0,
                orientation_w := 1\<rparr>)
   \<and> translation_column sample_reference_grasp = (1 / 2, 0, 1 / 4)"
proof -
  let ?s = "with_object (NdArray identity4) sample_world"
  have len: "length (heap ?s) = 12"
    by (simp add: with_object_def sample_world_def sample_heap_def)
  have *: "mat_mul identity4 identity4 = identity4 \<and> mat_mul identity4 identity4 = identity4
     \<and> (\<exists>s'. compose_grasp_pose sample_backend sample_globals 11 6 ?s
                 = (Inr (length (heap ?s) + 3), s')
          \<and> heap s' ! (length (heap ?s) + 2) = NdArray (mat_mul identity4 sample_reference_grasp)
          \<and> heap s' ! (length (heap ?s) + 3) =
              PoseStamped (new_PoseStamped\<lparr>position_x := 1 / 2, position_y := 0,
                position_z := 1 / 4,
                orientation_x := 0, orientation_y := 0, orientation_z := 0,
                orientation_w := 1\<rparr>))
     \<and> (identity4 = identity4 \<longrightarrow>
          mat_mul identity4 sample_reference_grasp = sample_reference_grasp
          \<and> translation_column sample_reference_grasp = (1 / 2, 0, 1 / 4)
          \<and> quat_from_rotation_matrix sample_backend (rotation_block sample_reference_grasp)
              = Inr (1, 0, 0, 0))"
    by (rule grasp_transform_is_inverse_times_reference)
       (simp_all add: mat_inv_identity mat_mul_identity_left is_geometry_simps
          with_object_def sample_world_def sample_heap_def sample_globals_def
          sample_backend_def sample_reference_grasp_def translation_column_def)
  then obtain s' where r: "compose_grasp_pose sample_backend sample_globals 11 6 ?s
                 = (Inr (length (heap ?s) + 3), s')"
     and p: "heap s' ! (length (heap ?s) + 3) =
              PoseStamped (new_PoseStamped\<lparr>position_x := 1 / 2, position_y := 0,
                position_z := 1 / 4,
                orientation_x := 0, orientation_y := 0, orientation_z := 0,
                orientation_w := 1\<rparr>)"
    by blast
  from * have tc: "translation_column sample_reference_grasp = (1 / 2, 0, 1 / 4)" by simp
  show ?thesis
    unfolding r using p tc by (simp add: len mat_inv_identity)
qed

text \<open>
  Claim C1.  The call in the sample scene, on the far cloud.  In the robot frame
  its point is \<open>(5, 5, 6)\<close>, strictly outside the workspace box.  The cloud that
  \<^verbatim>\<open>crop\<close> returns (address 14) is empty, but no name is bound to it; the cloud
  the pipeline goes on with (address 13) still holds the point, displaced, and
  so does the down-sampled cloud that is registered (address 15).
\<close>

theorem cropped_cloud_is_dropped:
  "heap (snd sample_call) ! workspace_bounding_box sample_globals
     = OrientedBoundingBox (unit_box\<lparr>obb_color := (0, 1, 0)\<rparr>)
   \<and> strictly_outside (unit_box\<lparr>obb_color := (0, 1, 0)\<rparr>) (5, 5, 6)
   \<and> heap (snd sample_call) ! 12 = PointCloud robot_frame_cloud
   \<and> heap (snd sample_call) ! 14 = PointCloud (crop_cloud (unit_box\<lparr>obb_color := (0, 1, 0)\<rparr>) robot_frame_cloud)
   \<and> crop_cloud (unit_box\<lparr>obb_color := (0, 1, 0)\<rparr>) robot_frame_cloud = empty_cloud
   \<and> heap (snd sample_call) ! 13
       = PointCloud (transform_cloud sample_base_to_cam robot_frame_cloud)
   \<and> points (transform_cloud sample_base_to_cam robot_frame_cloud)
       = [transform_point sample_base_to_cam (5, 5, 6)]
   \<and> heap (snd sample_call) ! 15
       = PointCloud \<lparr>points = [transform_point sample_base_to_cam (5, 5, 6)],
                      normals = [(0, 0, 1)], colors = [(0, 0, 1)]\<rparr>"
  unfolding sample_call_value
  by (simp add: sample_globals_def sample_heap_def robot_frame_cloud_def empty_cloud_def
      unit_box_def identity3_def sample_base_to_cam_def geom_defs mat_defs far_cloud_def)




text \<open>
  Claim C6, as stated, with a source that has no descriptor at all (an empty
  cloud at address 11, an empty feature set at address 12): no match can be
  found, fewer than three, and the global registration does not fail with
  \<open>InsufficientCorrespondences\<close>.
\<close>

theorem no_descriptors_counterexample:
  "length ([] :: feature) < 3
   \<and> fst (execute_fast_global_registration sample_backend 11 7 12 8 GLOBAL_DISTANCE_THRESHOLD
            (with_object (Feature []) (with_object (PointCloud empty_cloud) sample_world)))
       \<noteq> Inl InsufficientCorrespondences"
  by (simp add: execute_fast_global_registration_def prim_defs sample_defs const_defs)

text \<open>
  Claim C6, amended.  The global registration counts no matches and never fails
  with \<open>InsufficientCorrespondences\<close>: it prints one line and its outcome is
  the outcome of the library's feature-matching registration on the two clouds
  and the two feature sets, whatever they hold.
\<close>

theorem fast_global_registration_checks_no_matches:
  assumes "src_down < length (heap s)" "heap s ! src_down = PointCloud sc"
    and "tgt_down < length (heap s)" "heap s ! tgt_down = PointCloud tc"
    and "src_fpfh < length (heap s)" "heap s ! src_fpfh = Feature sf"
    and "tgt_fpfh < length (heap s)" "heap s ! tgt_fpfh = Feature tf"
  shows "execute_fast_global_registration L src_down tgt_down src_fpfh tgt_fpfh
           distance_threshold s =
     (case o3d_registration_fast L distance_threshold sc tc sf tf of
        Inl e \<Rightarrow> Inl (LibraryError e) | Inr result \<Rightarrow> Inr result,
      s\<lparr>stdout := stdout s @ [''[INFO] Fast global registration with fpfh features'']\<rparr>)
   \<and> fst (execute_fast_global_registration L src_down tgt_down src_fpfh tgt_fpfh
           distance_threshold s) \<noteq> Inl InsufficientCorrespondences"
  using assms
  by (simp add: execute_fast_global_registration_def prim_defs split: sum.splits)

text \<open>The amended claim in the sample scene, registering the down-sampled
  reference cloud against itself.\<close>

theorem fast_global_registration_checks_no_matches_witness:
  "fst (execute_fast_global_registration sample_backend 7 7 8 8 GLOBAL_DISTANCE_THRESHOLD
          sample_world) = Inr (sample_result identity4)
   \<and> stdout (snd (execute_fast_global_registration sample_backend 7 7 8 8
          GLOBAL_DISTANCE_THRESHOLD sample_world))
       = [''[INFO] Fast global registration with fpfh features'']"
  using fast_global_registration_checks_no_matches[of 7 sample_world
      "\<lparr>points = [(0, 0, 0)], normals = [(0, 0, 1)], colors = [(6 / 10, 6 / 10, 6 / 10)]\<rparr>"
      7 "\<lparr>points = [(0, 0, 0)], normals = [(0, 0, 1)], colors = [(6 / 10, 6 / 10, 6 / 10)]\<rparr>"
      8 "[[0]]" 8 "[[0]]" sample_backend GLOBAL_DISTANCE_THRESHOLD]
  by (simp add: sample_world_def sample_heap_def sample_backend_def)




text \<open>
  Claim C3, as stated, at the call in the sample scene: the pose it returns has
  the position and the quaternion of the grasp transform, and its frame
  identifier is the empty string, which names no frame.
\<close>

theorem pose_frame_id_counterexample:
  "fst sample_call = Inr 23
   \<and> heap (snd sample_call) ! 23 =
       PoseStamped \<lparr>header_seq = 0, header_stamp = (0, 0), header_frame_id = [],
          position_x = 1 / 2, position_y = 0, position_z = 5 / 4,
          orientation_x = 0, orientation_y = 0, orientation_z = 0, orientation_w = 1\<rparr>"
  unfolding sample_call_value by (simp add: sample_heap_def)

text \<open>
  Claim C3, amended.  The pipeline sets no frame identifier.  Whenever a call
  returns a pose, every library call it made has returned, and the pose is a
  new message whose header is the default one of \<^verbatim>\<open>PoseStamped()\<close>, with the
  empty string as frame identifier, whose position is the translation column of
  the grasp transform and whose orientation is the quaternion the library gives
  for its rotation block.  The grasp transform is the inverse of the reported
  source-to-target transform (the refined registration transform times the
  displacement) times the reference grasp transform.
\<close>

theorem returned_pose_has_empty_frame_id:
  assumes init: "init_module L F s0 = (Inr G, s1)"
    and ext: "extends (heap s1) s"
    and call: "get_target_grasp_pose L G source_pcd s = (Inr pose, s')"
  shows "\<exists>c td tf d sd sf result_fast result_refine Ti qw qx qy qz tx ty tz.
       heap s ! source_pcd = PointCloud c
     \<and> heap s ! target_down G = PointCloud td
     \<and> heap s ! target_fpfh G = Feature tf
     \<and> o3d_voxel_down_sample L VOXEL_SIZE
          (transform_cloud (npy_base_to_cam F)
             (transform_cloud (npy_cam_to_base F) (paint_cloud (0, 0, 1) c))) = Inr d
     \<and> o3d_estimate_normals L (RADIUS_NORMAL, 100) d = Inr sd
     \<and> o3d_compute_fpfh_feature L (RADIUS_FEATURE, 200) sd = Inr sf
     \<and> o3d_registration_fast L GLOBAL_DISTANCE_THRESHOLD sd td sf tf = Inr result_fast
     \<and> o3d_registration_icp L ICP_REFINE_DISTANCE_THRESHOLD (transformation result_fast) sd td
          = Inr result_refine
     \<and> mat_inv (mat_mul (transformation result_refine) (npy_base_to_cam F)) = Inr Ti
     \<and> quat_from_rotation_matrix L
          (rotation_block (mat_mul Ti (npy_base_to_reference_grasp F))) = Inr (qw, qx, qy, qz)
     \<and> translation_column (mat_mul Ti (npy_base_to_reference_grasp F)) = (tx, ty, tz)
     \<and> length (heap s) \<le> pose
     \<and> heap s' ! pose =
         PoseStamped \<lparr>header_seq = 0, header_stamp = (0, 0), header_frame_id = [],
           position_x = tx, position_y = ty, position_z = tz,
           orientation_x = qx, orientation_y = qy, orientation_z = qz, orientation_w = qw\<rparr>"
proof -
  let ?C = "npy_cam_to_base F" and ?D = "npy_base_to_cam F"
  let ?R = "npy_base_to_reference_grasp F"
  note res = init_module_result[OF init]
  note objs = init_module_objects[OF init]
  have len: "length (heap s1) \<le> length (heap s)" using ext by (rule extends_length)
  obtain bx where bx: "heap s1 ! workspace_bounding_box G = OrientedBoundingBox bx"
    using objs(6) by blast
  obtain rm where rm: "heap s1 ! robot_frame G = TriangleMesh rm" using objs(7) by blast
  obtain tc where tc: "heap s1 ! target G = PointCloud tc" using objs(8) by blast
  obtain td where td: "heap s1 ! target_down G = PointCloud td" using objs(9) by blast
  obtain tf where tf: "heap s1 ! target_fpfh G = Feature tf" using objs(10) by blast
  have G1: "transform_cam_to_base_hand_calibrated G < length (heap s1)"
      "transform_base_to_reference_grasp G < length (heap s1)"
      "workspace_bounding_box G < length (heap s1)"
      "robot_frame G < length (heap s1)" "target G < length (heap s1)"
      "target_down G < length (heap s1)" "target_fpfh G < length (heap s1)"
      "init_transformation_for_global_registration G < length (heap s1)"
      "pose_msg G < length (heap s1)"
    using res by auto
  have lt: "transform_cam_to_base_hand_calibrated G < length (heap s)"
      "transform_base_to_reference_grasp G < length (heap s)"
      "workspace_bounding_box G < length (heap s)"
      "robot_frame G < length (heap s)" "target G < length (heap s)"
      "target_down G < length (heap s)" "target_fpfh G < length (heap s)"
      "init_transformation_for_global_registration G < length (heap s)"
      "pose_msg G < length (heap s)"
    using G1 len by simp_all
  have at: "heap s ! transform_cam_to_base_hand_calibrated G = NdArray ?C"
      "heap s ! transform_base_to_reference_grasp G = NdArray ?R"
      "heap s ! workspace_bounding_box G = OrientedBoundingBox bx"
      "heap s ! robot_frame G = TriangleMesh rm" "heap s ! target G = PointCloud tc"
      "heap s ! target_down G = PointCloud td" "heap s ! target_fpfh G = Feature tf"
      "heap s ! init_transformation_for_global_registration G = NdArray ?D"
      "heap s ! pose_msg G = PoseStamped new_PoseStamped"
    using extends_nth[OF ext] G1 objs(2,3,4,5) bx rm tc td tf by simp_all
  from call obtain a t1 where 1: "source_into_robot_frame G source_pcd s = (Inr a, t1)"
    and c1: "bindp (source_to_process G a) (\<lambda>source_pcd_to_process.
               bindp (register_source L G source_pcd_to_process) (\<lambda>transform_source_to_target.
               compose_grasp_pose L G transform_source_to_target a)) t1 = (Inr pose, s')"
    unfolding get_target_grasp_pose_def by (rule bindp_InrE)
  from c1 obtain b t2 where 2: "source_to_process G a t1 = (Inr b, t2)"
    and c2: "bindp (register_source L G b) (\<lambda>transform_source_to_target.
               compose_grasp_pose L G transform_source_to_target a) t2 = (Inr pose, s')"
    by (rule bindp_InrE)
  from c2 obtain t t3 where 3: "register_source L G b t2 = (Inr t, t3)"
    and c3: "compose_grasp_pose L G t a t3 = (Inr pose, s')"
    by (rule bindp_InrE)
  from c3 obtain g t4 where 4: "show_grasp_transform L G t a t3 = (Inr g, t4)"
    and 5: "pose_of_transform L G g t4 = (Inr pose, s')"
    unfolding compose_grasp_pose_def by (rule bindp_InrE)
  \<comment> \<open>first part\<close>
  from source_into_robot_frame_InrD[OF 1] obtain c
    where c: "source_pcd < length (heap s)" "heap s ! source_pcd = PointCloud c" by blast
  define x1 where "x1 = transform_cloud ?C (paint_cloud (0, 0, 1) c)"
  have "source_into_robot_frame G source_pcd s =
          (Inr (length (heap s)), s\<lparr>heap := heap s @ [PointCloud x1]\<rparr>)"
    unfolding x1_def using c lt(1) at(1) by (rule source_into_robot_frame_run)
  with 1 have a: "a = length (heap s)" and t1: "t1 = s\<lparr>heap := heap s @ [PointCloud x1]\<rparr>"
    by simp_all
  \<comment> \<open>second part\<close>
  define x2 where "x2 = transform_cloud ?D x1"
  have "source_to_process G a t1 =
          (Inr (length (heap t1)),
           t1\<lparr>heap := heap t1 @ [PointCloud x2, PointCloud (crop_cloud bx x1)]\<rparr>)"
    unfolding x2_def
    by (rule source_to_process_run) (simp_all add: a t1 nth_append lt at less_SucI)
  with 2 have b: "b = length (heap t1)"
    and t2: "t2 = t1\<lparr>heap := heap t1 @ [PointCloud x2, PointCloud (crop_cloud bx x1)]\<rparr>"
    by simp_all
  \<comment> \<open>third part\<close>
  have p3: "b < length (heap t2)" "heap t2 ! b = PointCloud x2"
      "target_down G < length (heap t2)" "heap t2 ! target_down G = PointCloud td"
      "target_fpfh G < length (heap t2)" "heap t2 ! target_fpfh G = Feature tf"
      "init_transformation_for_global_registration G < length (heap t2)"
      "heap t2 ! init_transformation_for_global_registration G = NdArray ?D"
    by (simp_all add: b t2 t1 nth_append lt at less_SucI)
  from register_source_InrD[OF 3 p3(1-6)] obtain d sd sf result_fast result_refine
    where lib: "o3d_voxel_down_sample L VOXEL_SIZE x2 = Inr d"
      "o3d_estimate_normals L (RADIUS_NORMAL, 100) d = Inr sd"
      "o3d_compute_fpfh_feature L (RADIUS_FEATURE, 200) sd = Inr sf"
      "o3d_registration_fast L GLOBAL_DISTANCE_THRESHOLD sd td sf tf = Inr result_fast"
      "o3d_registration_icp L ICP_REFINE_DISTANCE_THRESHOLD (transformation result_fast) sd td
          = Inr result_refine"
    by blast
  define T where "T = mat_mul (transformation result_refine) ?D"
  note r3 = register_source_run[OF p3 lib]
  with 3 have t: "t = length (heap t2) + 4"
    and t3: "t3 = t2\<lparr>heap := heap t2 @
          [PointCloud sd, Feature sf, NdArray (transformation result_fast),
           NdArray (transformation result_refine), NdArray T],
        stdout := stdout t2 @ [''[INFO] Fast global registration with fpfh features'',
                              ''[INFO] Point-to-plane ICP registration'']\<rparr>"
    by (simp_all add: T_def)
  \<comment> \<open>fourth part\<close>
  have p4: "t < length (heap t3)" "heap t3 ! t = NdArray T"
      "transform_base_to_reference_grasp G < length (heap t3)"
      "heap t3 ! transform_base_to_reference_grasp G = NdArray ?R"
    by (simp_all add: t t3 t2 t1 nth_append lt at less_SucI)
  have q4: "robot_frame G < length (heap t3)" "is_geometry (heap t3 ! robot_frame G)"
      "target G < length (heap t3)" "is_geometry (heap t3 ! target G)"
      "a < length (heap t3)" "is_geometry (heap t3 ! a)"
    by (simp_all add: a t3 t2 t1 nth_append lt at is_geometry_simps less_SucI)
  from show_grasp_transform_InrD[OF 4 p4(1,2)] obtain Ti where Ti: "mat_inv T = Inr Ti"
    by blast
  define M where "M = mat_mul Ti ?R"
  note r4 = show_grasp_transform_run[OF p4 Ti q4]
  with 4 have g: "g = length (heap t3) + 2"
    and t4: "t4 = t3\<lparr>heap := heap t3 @
          [TriangleMesh (transform_mesh M (o3d_create_coordinate_frame L (2 / 10))),
           NdArray Ti, NdArray M],
        stdout := stdout t3 @ [''[INFO] Visualizing the found grasping pose''],
        windows := windows t3 @
          [(''Grasping pose proposal'', [robot_frame G, length (heap t3), a, target G])]\<rparr>"
    by (simp_all add: M_def)
  \<comment> \<open>fifth part\<close>
  have p5: "g < length (heap t4)" "heap t4 ! g = NdArray M"
    by (simp_all add: g t4 nth_append)
  have q5: "pose_msg G < length (heap t4)" "heap t4 ! pose_msg G = PoseStamped new_PoseStamped"
    by (simp_all add: t4 t3 t2 t1 nth_append lt at less_SucI)
  from pose_of_transform_InrD[OF 5 p5] obtain qw qx qy qz
    where q: "quat_from_rotation_matrix L (rotation_block M) = Inr (qw, qx, qy, qz)"
    by blast
  obtain tx ty tz where tr: "translation_column M = (tx, ty, tz)" by (metis prod.exhaust)
  note r5 = pose_of_transform_run[OF p5 q tr q5]
  with 5 have pose: "pose = length (heap t4)"
    and s': "s' = t4\<lparr>heap := heap t4 @
          [PoseStamped (new_PoseStamped\<lparr>position_x := tx, position_y := ty, position_z := tz,
             orientation_x := qx, orientation_y := qy, orientation_z := qz,
             orientation_w := qw\<rparr>)]\<rparr>"
    by simp_all
  have fin: "heap s' ! pose =
         PoseStamped \<lparr>header_seq = 0, header_stamp = (0, 0), header_frame_id = [],
           position_x = tx, position_y = ty, position_z = tz,
           orientation_x = qx, orientation_y = qy, orientation_z = qz, orientation_w = qw\<rparr>"
    by (simp add: pose s' new_PoseStamped_def)
  have fresh: "length (heap s) \<le> pose"
    by (simp add: pose t4 t3 t2 t1)
  from c(2) at(6,7) lib[unfolded x2_def x1_def] Ti[unfolded T_def] q[unfolded M_def]
    tr[unfolded M_def] fresh fin
  show ?thesis by blast
qed

text \<open>The amended claim on the call in the sample scene.\<close>

theorem returned_pose_has_empty_frame_id_witness:
  "init_module sample_backend sample_files empty_world = (Inr sample_globals, sample_world)
   \<and> extends (heap sample_world) (with_object (PointCloud far_cloud) sample_world)
   \<and> fst sample_call = Inr 23
   \<and> (\<exists>tx ty tz qw qx qy qz. heap (snd sample_call) ! 23 =
         PoseStamped \<lparr>header_seq = 0, header_stamp = (0, 0), header_frame_id = [],
           position_x = tx, position_y = ty, position_z = tz,
           orientation_x = qx, orientation_y = qy, orientation_z = qz, orientation_w = qw\<rparr>)
   \<and> heap (snd sample_call) ! 23 =
         PoseStamped \<lparr>header_seq = 0, header_stamp = (0, 0), header_frame_id = [],
           position_x = 1 / 2, position_y = 0, position_z = 5 / 4,
           orientation_x = 0, orientation_y = 0, orientation_z = 0, orientation_w = 1\<rparr>"
proof -
  have e: "extends (heap sample_world) (with_object (PointCloud far_cloud) sample_world)"
    by (simp add: extends_def with_object_def)
  have r: "fst sample_call = Inr 23" by (simp add: sample_call_value)
  have c: "get_target_grasp_pose sample_backend sample_globals 11
             (with_object (PointCloud far_cloud) sample_world) = (Inr 23, snd sample_call)"
    using r by (simp add: sample_call_def prod_eq_iff)
  from returned_pose_has_empty_frame_id[OF init_sample e c]
  have "\<exists>tx ty tz qw qx qy qz. heap (snd sample_call) ! 23 =
         PoseStamped \<lparr>header_seq = 0, header_stamp = (0, 0), header_frame_id = [],
           position_x = tx, position_y = ty, position_z = tz,
           orientation_x = qx, orientation_y = qy, orientation_z = qz, orientation_w = qw\<rparr>"
    by blast
  moreover have "heap (snd sample_call) ! 23 =
         PoseStamped \<lparr>header_seq = 0, header_stamp = (0, 0), header_frame_id = [],
           position_x = 1 / 2, position_y = 0, position_z = 5 / 4,
           orientation_x = 0, orientation_y = 0, orientation_z = 0, orientation_w = 1\<rparr>"
    unfolding sample_call_value by (simp add: sample_heap_def)
  ultimately show ?thesis using init_sample e r by blast
qed

end
